theory Spec2Isabelle
  imports Complex_Main
begin

section \<open>Embedding of semu/xr/openxr/openxr.py\<close>

text \<open>
  The module is a Python facade (class \<open>OpenXR\<close>) over a native XR runtime library.
  The embedding follows the source method by method.  Conventions:
  \<^item> a Python exception is a value of \<open>error\<close>; a method that can raise returns a sum,
    \<open>Inl\<close> carrying the exception;
  \<^item> the attributes of \<open>self\<close> are the fields of the record \<open>OpenXR\<close>, and a mutating
    method returns the updated record;
  \<^item> Python floats are idealised as real numbers (no rounding); the one place where an
    IEEE special value can arise, the division of a \<open>Gf.Vec3d\<close> by the unit scale, uses
    the type \<open>double\<close>, which adds the infinities and NaN to the reals;
  \<^item> the native library (\<open>xrlib_p\<close> / \<open>xrlib_c.so\<close>) is not Python code of this module: what
    a native call returns is an argument of the method that makes the call;
  \<^item> a user callback is an opaque callable, identified by a name; invoking it is recorded
    as an \<open>invocation\<close> (callback, path, value) in the trace a method returns.  Callbacks
    are assumed to return normally and not to touch the \<open>OpenXR\<close> object.
\<close>

subsection \<open>Exceptions and constants\<close>

datatype error =
  ValueError | AssertionError | KeyError | TypeError | AttributeError | IndexError
  | ZeroDivisionError | NotImplementedError | AxisError | CvError

definition XR_KHR_OPENGL_ENABLE_EXTENSION_NAME :: string where
  "XR_KHR_OPENGL_ENABLE_EXTENSION_NAME = ''XR_KHR_opengl_enable''"
definition XR_KHR_OPENGL_ES_ENABLE_EXTENSION_NAME :: string where
  "XR_KHR_OPENGL_ES_ENABLE_EXTENSION_NAME = ''XR_KHR_opengl_es_enable''"
definition XR_KHR_VULKAN_ENABLE_EXTENSION_NAME :: string where
  "XR_KHR_VULKAN_ENABLE_EXTENSION_NAME = ''XR_KHR_vulkan_enable''"
definition XR_KHR_D3D11_ENABLE_EXTENSION_NAME :: string where
  "XR_KHR_D3D11_ENABLE_EXTENSION_NAME = ''XR_KHR_D3D11_enable''"
definition XR_KHR_D3D12_ENABLE_EXTENSION_NAME :: string where
  "XR_KHR_D3D12_ENABLE_EXTENSION_NAME = ''XR_KHR_D3D12_enable''"

definition XR_FORM_FACTOR_HEAD_MOUNTED_DISPLAY :: int where
  "XR_FORM_FACTOR_HEAD_MOUNTED_DISPLAY = 1"
definition XR_FORM_FACTOR_HANDHELD_DISPLAY :: int where
  "XR_FORM_FACTOR_HANDHELD_DISPLAY = 2"

definition XR_ENVIRONMENT_BLEND_MODE_OPAQUE :: int where
  "XR_ENVIRONMENT_BLEND_MODE_OPAQUE = 1"
definition XR_ENVIRONMENT_BLEND_MODE_ADDITIVE :: int where
  "XR_ENVIRONMENT_BLEND_MODE_ADDITIVE = 2"
definition XR_ENVIRONMENT_BLEND_MODE_ALPHA_BLEND :: int where
  "XR_ENVIRONMENT_BLEND_MODE_ALPHA_BLEND = 3"

definition XR_VIEW_CONFIGURATION_TYPE_PRIMARY_MONO :: int where
  "XR_VIEW_CONFIGURATION_TYPE_PRIMARY_MONO = 1"
definition XR_VIEW_CONFIGURATION_TYPE_PRIMARY_STEREO :: int where
  "XR_VIEW_CONFIGURATION_TYPE_PRIMARY_STEREO = 2"

definition XR_ACTION_TYPE_BOOLEAN_INPUT :: int where
  "XR_ACTION_TYPE_BOOLEAN_INPUT = 1"
definition XR_ACTION_TYPE_FLOAT_INPUT :: int where
  "XR_ACTION_TYPE_FLOAT_INPUT = 2"
definition XR_ACTION_TYPE_VECTOR2F_INPUT :: int where
  "XR_ACTION_TYPE_VECTOR2F_INPUT = 3"
definition XR_ACTION_TYPE_POSE_INPUT :: int where
  "XR_ACTION_TYPE_POSE_INPUT = 4"
definition XR_ACTION_TYPE_VIBRATION_OUTPUT :: int where
  "XR_ACTION_TYPE_VIBRATION_OUTPUT = 100"

subsection \<open>The scene-graph value types (pxr.Gf)\<close>

text \<open>
  \<open>Gf.Vec3d\<close> and \<open>Gf.Quatd\<close> belong to the host's library.  Only the two operations the
  module uses are modelled: the division of a vector by a scalar and the product of two
  quaternions.  Both are C++ double arithmetic that never raises: dividing by zero yields
  an infinity, or NaN for a zero numerator.
\<close>

datatype double = Num real | PosInf | NegInf | NaN

definition double_div :: "real \<Rightarrow> real \<Rightarrow> double" where
  "double_div a s =
     (if s \<noteq> 0 then Num (a / s)
      else if 0 < a then PosInf else if a < 0 then NegInf else NaN)"

datatype Vec3d = Vec3d double double double

text \<open>\<open>Gf.Vec3d(a, b, c) / s\<close> for finite components \<open>a\<close>, \<open>b\<close>, \<open>c\<close>.\<close>

definition Vec3d_truediv :: "real \<Rightarrow> real \<Rightarrow> real \<Rightarrow> real \<Rightarrow> Vec3d" where
  "Vec3d_truediv a b c s = Vec3d (double_div a s) (double_div b s) (double_div c s)"

text \<open>\<open>Gf.Quatd(w, x, y, z)\<close>: real part first.\<close>

datatype Quatd = Quatd real real real real

text \<open>The Hamilton product, \<open>Gf.Quatd.__mul__\<close> (and \<open>__imul__\<close>: \<open>p *= q\<close> is \<open>p = p * q\<close>).\<close>

fun Quatd_mul :: "Quatd \<Rightarrow> Quatd \<Rightarrow> Quatd" where
  "Quatd_mul (Quatd w1 x1 y1 z1) (Quatd w2 x2 y2 z2) =
     Quatd (w1 * w2 - x1 * x2 - y1 * y2 - z1 * z2)
           (w1 * x2 + x1 * w2 + y1 * z2 - z1 * y2)
           (w1 * y2 + y1 * w2 + z1 * x2 - x1 * z2)
           (w1 * z2 + z1 * w2 + x1 * y2 - y1 * x2)"

subsection \<open>The ctypes structures\<close>

datatype XrQuaternionf = XrQuaternionf (quat_x: real) (quat_y: real) (quat_z: real) (quat_w: real)

datatype XrVector3f = XrVector3f (vec_x: real) (vec_y: real) (vec_z: real)

datatype XrPosef = XrPosef (orientation: XrQuaternionf) (position: XrVector3f)

datatype XrFovf = XrFovf (angleLeft: real) (angleRight: real) (angleUp: real) (angleDown: real)

datatype XrView = XrView (view_pose: XrPosef) (view_fov: XrFovf)

record XrViewConfigurationView =
  recommendedImageRectWidth :: nat
  maxImageRectWidth :: nat
  recommendedImageRectHeight :: nat
  maxImageRectHeight :: nat
  recommendedSwapchainSampleCount :: nat
  maxSwapchainSampleCount :: nat

text \<open>
  An action-state record as the native library reports it.  On the ctypes transport the
  path is a \<open>c_char_p\<close>, which reads as \<open>None\<close> when the pointer is NULL (as in an entry
  the library did not fill); on the pybind11 transport the record is a dictionary whose
  path is a string.  The type parameter \<open>'p\<close> is \<open>string option\<close> for the first and
  \<open>string\<close> for the second.
\<close>

record 'p ActionState =
  as_type :: int
  as_path :: 'p
  as_isActive :: bool
  stateBool :: bool
  stateFloat :: real
  stateVectorX :: real
  stateVectorY :: real

record 'p ActionPoseState =
  aps_type :: int
  aps_path :: 'p
  aps_isActive :: bool
  aps_pose :: XrPosef

subsection \<open>Callbacks and the values they receive\<close>

datatype callback = Callable string

datatype action_value =
  PyNone
  | PyBool bool
  | PyFloat real
  | PyVector2 real real
  | PyPose Vec3d Quatd

type_synonym invocation = "callback \<times> string \<times> action_value"

text \<open>
  \<open>d[path](path, value)\<close> for a dictionary of callbacks: a missing key raises
  \<open>KeyError\<close>, a stored \<open>None\<close> is not callable (\<open>TypeError\<close>).
\<close>

definition call_registered ::
  "(string \<rightharpoonup> callback option) \<Rightarrow> string \<Rightarrow> action_value \<Rightarrow> error + invocation" where
  "call_registered d p v =
     (case d p of
        None \<Rightarrow> Inl KeyError
      | Some None \<Rightarrow> Inl TypeError
      | Some (Some cb) \<Rightarrow> Inr (cb, p, v))"

text \<open>\<open>state.path.decode("utf-8")\<close> on a \<open>c_char_p\<close> field: \<open>None\<close> has no \<open>decode\<close>.\<close>

definition decode_path :: "string option \<Rightarrow> error + string" where
  "decode_path p = (case p of None \<Rightarrow> Inl AttributeError | Some s \<Rightarrow> Inr s)"

text \<open>
  One pass of a \<open>for\<close> loop over reported records.  The body either leaves the loop
  (\<open>break\<close>), raises, or goes on to the next record after zero or more invocations.  The
  result is the trace of invocations made, and the exception that ended the loop if any.
\<close>

datatype step = Break | Raise error | Next "invocation list"

fun for_each :: "('s \<Rightarrow> step) \<Rightarrow> 's list \<Rightarrow> invocation list \<times> error option" where
  "for_each body [] = ([], None)"
| "for_each body (s # ss) =
     (case body s of
        Break \<Rightarrow> ([], None)
      | Raise e \<Rightarrow> ([], Some e)
      | Next evs \<Rightarrow> (case for_each body ss of (tr, r) \<Rightarrow> (evs @ tr, r)))"

definition step_of :: "error + invocation \<Rightarrow> step" where
  "step_of r = (case r of Inl e \<Rightarrow> Raise e | Inr ev \<Rightarrow> Next [ev])"

subsection \<open>Image buffers (numpy.ndarray) and the memory they live in\<close>

text \<open>
  A frame is a three-dimensional \<open>uint8\<close> array of shape (rows, columns, channels).  An
  \<open>ndarray\<close> object does not hold its elements: it names a buffer of the memory and says
  where in that buffer each of its elements lies, so that two arrays can share a buffer
  (a numpy view).  \<open>memory\<close> maps each allocated buffer to its contents; buffers are
  allocated at increasing addresses.
\<close>

type_synonym addr = nat

record ndarray =
  buffer :: addr
  shape0 :: nat
  shape1 :: nat
  shape2 :: nat
  locate :: "nat \<Rightarrow> nat \<Rightarrow> nat \<Rightarrow> nat \<times> nat \<times> nat"

record memory =
  next_free :: addr
  contents :: "addr \<Rightarrow> nat \<times> nat \<times> nat \<Rightarrow> nat"

definition element :: "memory \<Rightarrow> ndarray \<Rightarrow> nat \<Rightarrow> nat \<Rightarrow> nat \<Rightarrow> nat" where
  "element mem a i j k = contents mem (buffer a) (locate a i j k)"

text \<open>A new array owning a new buffer, of the given shape and elements.\<close>

definition allocate ::
  "memory \<Rightarrow> nat \<Rightarrow> nat \<Rightarrow> nat \<Rightarrow> (nat \<Rightarrow> nat \<Rightarrow> nat \<Rightarrow> nat) \<Rightarrow> ndarray \<times> memory" where
  "allocate mem h w c els =
     (\<lparr>buffer = next_free mem, shape0 = h, shape1 = w, shape2 = c,
       locate = (\<lambda>i j k. (i, j, k))\<rparr>,
      mem\<lparr>next_free := Suc (next_free mem),
          contents := (contents mem)(next_free mem := (\<lambda>(i, j, k). els i j k))\<rparr>)"

text \<open>A caller writing one value into the buffer of an array it holds.\<close>

definition store_element :: "memory \<Rightarrow> ndarray \<Rightarrow> nat \<Rightarrow> nat \<Rightarrow> nat \<Rightarrow> nat \<Rightarrow> memory" where
  "store_element mem a i j k v =
     mem\<lparr>contents := (contents mem)(buffer a := (contents mem (buffer a))(locate a i j k := v))\<rparr>"

text \<open>
  The \<open>flip\<close> argument of \<open>set_frame_transformations\<close>: an integer or a tuple of integers.
\<close>

datatype flip_axes = AxisInt int | AxisTuple "int list"

text \<open>
  \<open>numpy.flip(frame, axis)\<close> for a 3-dimensional array.  Each axis must lie in
  \<open>-3 \<le> a < 3\<close> (\<open>AxisError\<close> otherwise), a negative one counting from the last, and a
  tuple must not name an axis twice (\<open>ValueError\<close>).  The result is a view: it shares
  the buffer of its argument.
\<close>

definition normalize_axis :: "int \<Rightarrow> error + nat" where
  "normalize_axis a =
     (if a < -3 \<or> 3 \<le> a then Inl AxisError
      else Inr (nat (if a < 0 then a + 3 else a)))"

fun normalize_axes :: "int list \<Rightarrow> error + nat list" where
  "normalize_axes [] = Inr []"
| "normalize_axes (a # as) =
     (case normalize_axis a of
        Inl e \<Rightarrow> Inl e
      | Inr n \<Rightarrow> (case normalize_axes as of Inl e \<Rightarrow> Inl e | Inr ns \<Rightarrow> Inr (n # ns)))"

definition normalize_axis_tuple :: "flip_axes \<Rightarrow> error + nat list" where
  "normalize_axis_tuple ax =
     (case ax of
        AxisInt a \<Rightarrow> normalize_axes [a]
      | AxisTuple as \<Rightarrow>
          (case normalize_axes as of
             Inl e \<Rightarrow> Inl e
           | Inr ns \<Rightarrow> if distinct ns then Inr ns else Inl ValueError))"

definition mirror :: "bool \<Rightarrow> nat \<Rightarrow> nat \<Rightarrow> nat" where
  "mirror b n i = (if b then n - 1 - i else i)"

definition np_flip :: "ndarray \<Rightarrow> flip_axes \<Rightarrow> error + ndarray" where
  "np_flip a ax =
     (case normalize_axis_tuple ax of
        Inl e \<Rightarrow> Inl e
      | Inr ns \<Rightarrow>
          Inr (a\<lparr>locate := (\<lambda>i j k.
                 locate a (mirror (0 \<in> set ns) (shape0 a) i)
                          (mirror (1 \<in> set ns) (shape1 a) j)
                          (mirror (2 \<in> set ns) (shape2 a) k))\<rparr>))"

text \<open>
  The slices \<open>frame[:, m:-m]\<close> and \<open>frame[m:-m, :]\<close> for \<open>m > 0\<close>: views that drop \<open>m\<close>
  columns (rows) at each side; the extent left is \<open>n - 2m\<close>, or zero when that is negative.
\<close>

definition crop_columns :: "ndarray \<Rightarrow> nat \<Rightarrow> ndarray" where
  "crop_columns a m = a\<lparr>shape1 := shape1 a - 2 * m, locate := (\<lambda>i j k. locate a i (j + m) k)\<rparr>"

definition crop_rows :: "ndarray \<Rightarrow> nat \<Rightarrow> ndarray" where
  "crop_rows a m = a\<lparr>shape0 := shape0 a - 2 * m, locate := (\<lambda>i j k. locate a (i + m) j k)\<rparr>"

text \<open>
  \<open>cv2.resize(src, (width, height), interpolation=cv2.INTER_LINEAR)\<close>.  OpenCV is not part
  of the module; its interpolation kernel is the parameter \<open>interp\<close>, which gives the
  elements of the result from the elements and shape of the source and the target size.
  What is modelled of OpenCV is its contract: an empty source or an empty target size is
  rejected (\<open>cv2.error\<close>), and the result is a new array of \<open>height\<close> rows and \<open>width\<close>
  columns with the channels of the source.
\<close>

type_synonym interpolation =
  "(nat \<Rightarrow> nat \<Rightarrow> nat \<Rightarrow> nat) \<Rightarrow> nat \<times> nat \<times> nat \<Rightarrow> nat \<times> nat \<Rightarrow> nat \<Rightarrow> nat \<Rightarrow> nat \<Rightarrow> nat"

definition cv2_resize ::
  "interpolation \<Rightarrow> memory \<Rightarrow> ndarray \<Rightarrow> nat \<times> nat \<Rightarrow> error + ndarray \<times> memory" where
  "cv2_resize interp mem src dsize =
     (if shape0 src = 0 \<or> shape1 src = 0 \<or> fst dsize = 0 \<or> snd dsize = 0 then Inl CvError
      else Inr (allocate mem (snd dsize) (fst dsize) (shape2 src)
                  (interp (element mem src) (shape0 src, shape1 src, shape2 src) dsize)))"

text \<open>\<open>numpy.array(frame, copy=True)\<close>: a new buffer holding the elements of \<open>frame\<close>.\<close>

definition np_array_copy :: "memory \<Rightarrow> ndarray \<Rightarrow> ndarray \<times> memory" where
  "np_array_copy mem a = allocate mem (shape0 a) (shape1 a) (shape2 a) (element mem a)"

text \<open>Division of two Python numbers: \<open>ZeroDivisionError\<close> for a zero divisor.\<close>

definition py_truediv :: "real \<Rightarrow> real \<Rightarrow> error + real" where
  "py_truediv a b = (if b = 0 then Inl ZeroDivisionError else Inr (a / b))"

text \<open>\<open>int(v)\<close> for a non-negative float \<open>v\<close>: truncation.\<close>

definition py_int :: "real \<Rightarrow> nat" where
  "py_int v = nat \<lfloor>v\<rfloor>"

subsection \<open>The object state\<close>

datatype prim = Prim string

datatype camera = Camera string

datatype viewport = Viewport string

text \<open>
  \<open>self._callback_render\<close>: a callable given by the user, or the closure
  \<open>_internal_render\<close> that \<open>subscribe_render_event\<close> installs when given none.
\<close>

datatype render_callback = UserRender callback | InternalRender

text \<open>
  \<open>lib_loaded\<close> stands for \<open>self._lib\<close> and \<open>self._app\<close>, which are \<open>None\<close> until \<open>init\<close>
  has loaded the native library.  A dictionary of callbacks maps a path to the stored
  callback, which may be \<open>None\<close>.
\<close>

record OpenXR =
  disable_openxr :: bool
  lib_loaded :: bool
  graphics :: "string option"
  use_ctypes :: bool
  prim_left :: "prim option"
  prim_right :: "prim option"
  frame_left :: "ndarray option"
  frame_right :: "ndarray option"
  cam_left :: "camera option"
  cam_right :: "camera option"
  viewport_window_left :: "viewport option"
  viewport_window_right :: "viewport option"
  meters_per_unit :: real
  reference_position :: "Vec3d option"
  reference_rotation :: "Vec3d option"
  rectification_quat_left :: Quatd
  rectification_quat_right :: Quatd
  transform_fit :: "bool option"
  transform_flip :: "flip_axes option"
  callback_action_events :: "string \<rightharpoonup> callback option"
  callback_action_pose_events :: "string \<rightharpoonup> callback option"
  callback_middle_render :: bool
  callback_render :: "render_callback option"

text \<open>\<open>acquire_openxr_interface(disable_openxr)\<close>, that is \<open>OpenXR.__init__\<close>.\<close>

definition acquire_openxr_interface :: "bool \<Rightarrow> OpenXR" where
  "acquire_openxr_interface disable =
     \<lparr>disable_openxr = disable, lib_loaded = False, graphics = None, use_ctypes = False,
      prim_left = None, prim_right = None, frame_left = None, frame_right = None,
      cam_left = None, cam_right = None,
      viewport_window_left = None, viewport_window_right = None,
      meters_per_unit = 1,
      reference_position = Some (Vec3d (Num 0) (Num 0) (Num 0)),
      reference_rotation = Some (Vec3d (Num 0) (Num 0) (Num 0)),
      rectification_quat_left = Quatd 1 0 0 0,
      rectification_quat_right = Quatd 1 0 0 0,
      transform_fit = None, transform_flip = None,
      callback_action_events = Map.empty, callback_action_pose_events = Map.empty,
      callback_middle_render = False, callback_render = None\<rparr>"

text \<open>
  What the native library answers to the call a method makes.  Each method reads only
  the field of the call it makes; the two transports have their own reply where the
  shape of the reply differs.
\<close>

record native =
  createInstance :: bool
  getSystem :: bool
  createSession :: bool
  pollEvents :: "bool \<times> bool"
  pollActions_ctypes :: "bool \<times> string option ActionState list"
  pollActions_pybind :: "bool \<times> string ActionState list"
  renderViews_ctypes :: "bool \<times> string option ActionPoseState list"
  renderViews_pybind :: "bool \<times> string ActionPoseState list"
  addAction :: bool
  setFrames :: bool

subsection \<open>Session set-up\<close>

text \<open>
  \<open>init(graphics, use_ctypes)\<close>.  \<open>load_ok\<close> says whether loading the native library
  succeeds (the \<open>try\<close> block); a failure is caught and reported as \<open>False\<close>.
\<close>

definition init :: "OpenXR \<Rightarrow> string \<Rightarrow> bool \<Rightarrow> bool \<Rightarrow> OpenXR \<times> (error + bool)" where
  "init self gr use_ct load_ok =
     (let self1 = self\<lparr>use_ctypes := use_ct\<rparr> in
      if gr \<in> set [''OpenGL'', XR_KHR_OPENGL_ENABLE_EXTENSION_NAME] then
        (let self2 = self1\<lparr>graphics := Some XR_KHR_OPENGL_ENABLE_EXTENSION_NAME\<rparr> in
         if disable_openxr self2 then (self2, Inr True)
         else if load_ok then (self2\<lparr>lib_loaded := True\<rparr>, Inr True)
         else (self2, Inr False))
      else if gr \<in> set [''OpenGLES'', XR_KHR_OPENGL_ES_ENABLE_EXTENSION_NAME] then
        (self1\<lparr>graphics := Some XR_KHR_OPENGL_ES_ENABLE_EXTENSION_NAME\<rparr>, Inl NotImplementedError)
      else if gr \<in> set [''Vulkan'', XR_KHR_VULKAN_ENABLE_EXTENSION_NAME] then
        (self1\<lparr>graphics := Some XR_KHR_VULKAN_ENABLE_EXTENSION_NAME\<rparr>, Inl NotImplementedError)
      else if gr \<in> set [''D3D11'', XR_KHR_D3D11_ENABLE_EXTENSION_NAME] then
        (self1\<lparr>graphics := Some XR_KHR_D3D11_ENABLE_EXTENSION_NAME\<rparr>, Inl NotImplementedError)
      else if gr \<in> set [''D3D12'', XR_KHR_D3D12_ENABLE_EXTENSION_NAME] then
        (self1\<lparr>graphics := Some XR_KHR_D3D12_ENABLE_EXTENSION_NAME\<rparr>, Inl NotImplementedError)
      else (self1, Inl ValueError))"

text \<open>
  A call into the native library: \<open>self._lib.f(self._app, ...)\<close> on the ctypes transport,
  \<open>self._app.f(...)\<close> on the pybind11 one.  Both raise \<open>AttributeError\<close> while the
  library is not loaded, and return the library's answer otherwise.
\<close>

definition native_call :: "OpenXR \<Rightarrow> 'a \<Rightarrow> error + 'a" where
  "native_call self reply = (if lib_loaded self then Inr reply else Inl AttributeError)"

definition create_instance :: "OpenXR \<Rightarrow> native \<Rightarrow> error + bool" where
  "create_instance self rt =
     (if disable_openxr self then Inr True
      else native_call self (createInstance rt))"

definition get_system :: "OpenXR \<Rightarrow> int \<Rightarrow> int \<Rightarrow> int \<Rightarrow> native \<Rightarrow> error + bool" where
  "get_system self form_factor blend_mode view_configuration_type rt =
     (if form_factor \<notin> set [XR_FORM_FACTOR_HEAD_MOUNTED_DISPLAY, XR_FORM_FACTOR_HANDHELD_DISPLAY]
      then Inl ValueError
      else if blend_mode \<notin> set [XR_ENVIRONMENT_BLEND_MODE_OPAQUE,
                XR_ENVIRONMENT_BLEND_MODE_ADDITIVE, XR_ENVIRONMENT_BLEND_MODE_ALPHA_BLEND]
      then Inl ValueError
      else if view_configuration_type \<notin> set [XR_VIEW_CONFIGURATION_TYPE_PRIMARY_MONO,
                XR_VIEW_CONFIGURATION_TYPE_PRIMARY_STEREO]
      then Inl ValueError
      else if disable_openxr self then Inr True
      else native_call self (getSystem rt))"

definition create_session :: "OpenXR \<Rightarrow> native \<Rightarrow> error + bool" where
  "create_session self rt =
     (if disable_openxr self then Inr True
      else native_call self (createSession rt))"

definition poll_events :: "OpenXR \<Rightarrow> native \<Rightarrow> error + bool" where
  "poll_events self rt =
     (if disable_openxr self then Inr True
      else (case native_call self (pollEvents rt) of
              Inl e \<Rightarrow> Inl e
            | Inr (result, exit_loop) \<Rightarrow> Inr (result \<and> \<not> exit_loop)))"

subsection \<open>Configuration\<close>

definition set_reference_system_pose :: "OpenXR \<Rightarrow> Vec3d option \<Rightarrow> Vec3d option \<Rightarrow> OpenXR" where
  "set_reference_system_pose self pos rot =
     self\<lparr>reference_position := pos, reference_rotation := rot\<rparr>"

text \<open>
  \<open>set_stereo_rectification(x, y, z)\<close>.  \<open>if x:\<close> on a float tests \<open>x \<noteq> 0\<close>; \<open>q *= r\<close>
  is \<open>q = q * r\<close>.
\<close>

definition set_stereo_rectification :: "OpenXR \<Rightarrow> real \<Rightarrow> real \<Rightarrow> real \<Rightarrow> OpenXR" where
  "set_stereo_rectification self x y z =
     (let l0 = Quatd 1 0 0 0;
          r0 = Quatd 1 0 0 0;
          l1 = (if x \<noteq> 0 then Quatd_mul l0 (Quatd (cos (x / 2)) (sin (x / 2)) 0 0) else l0);
          r1 = (if x \<noteq> 0 then Quatd_mul r0 (Quatd (cos (- x / 2)) (sin (- x / 2)) 0 0) else r0);
          l2 = (if y \<noteq> 0 then Quatd_mul l1 (Quatd (cos (y / 2)) 0 (sin (y / 2)) 0) else l1);
          r2 = (if y \<noteq> 0 then Quatd_mul r1 (Quatd (cos (- y / 2)) 0 (sin (- y / 2)) 0) else r1);
          l3 = (if z \<noteq> 0 then Quatd_mul l2 (Quatd (cos (z / 2)) 0 0 (sin (z / 2))) else l2);
          r3 = (if z \<noteq> 0 then Quatd_mul r2 (Quatd (cos (- z / 2)) 0 0 (sin (- z / 2))) else r2)
      in self\<lparr>rectification_quat_left := l3, rectification_quat_right := r3\<rparr>)"


definition set_frame_transformations :: "OpenXR \<Rightarrow> bool \<Rightarrow> flip_axes option \<Rightarrow> OpenXR" where
  "set_frame_transformations self fit flip =
     self\<lparr>transform_fit := Some fit, transform_flip := flip\<rparr>"

subsection \<open>Actions\<close>

text \<open>\<open>path.split("/")\<close>: the segments between the separators; never the empty list.\<close>

fun split :: "char \<Rightarrow> string \<Rightarrow> string list" where
  "split sep [] = [[]]"
| "split sep (c # cs) =
     (if c = sep then [] # split sep cs
      else (case split sep cs of
              [] \<Rightarrow> [[c]]
            | seg # segs \<Rightarrow> (c # seg) # segs))"

text \<open>\<open>path.split("/")[-1]\<close>\<close>

definition last_segment :: "string \<Rightarrow> string" where
  "last_segment path = last (split CHR ''/'' path)"

text \<open>The chain of \<open>if\<close>/\<open>elif\<close> that runs when \<open>action_type is None\<close>.\<close>

definition infer_action_type :: "string \<Rightarrow> error + int" where
  "infer_action_type path =
     (if last_segment path \<in> set [''click'', ''touch''] then Inr XR_ACTION_TYPE_BOOLEAN_INPUT
      else if last_segment path \<in> set [''value'', ''force''] then Inr XR_ACTION_TYPE_FLOAT_INPUT
      else if last_segment path \<in> set [''x'', ''y''] then Inr XR_ACTION_TYPE_VECTOR2F_INPUT
      else if last_segment path \<in> set [''pose''] then Inr XR_ACTION_TYPE_POSE_INPUT
      else if last_segment path \<in> set [''haptic'', ''haptic_left'', ''haptic_right'',
                ''haptic_left_trigger'', ''haptic_right_trigger'']
      then Inr XR_ACTION_TYPE_VIBRATION_OUTPUT
      else Inl ValueError)"

text \<open>
  \<open>subscribe_action_event(path, callback, action_type, reference_space)\<close>.  The two
  dictionaries are written before the native call, so the object returned with an
  exception of that call already holds the registration.
\<close>

definition subscribe_action_event ::
  "OpenXR \<Rightarrow> string \<Rightarrow> callback option \<Rightarrow> int option \<Rightarrow> int option \<Rightarrow> native
     \<Rightarrow> OpenXR \<times> (error + bool)" where
  "subscribe_action_event self path cb action_type reference_space rt =
     (case (case action_type of None \<Rightarrow> infer_action_type path | Some t \<Rightarrow> Inr t) of
        Inl e \<Rightarrow> (self, Inl e)
      | Inr t \<Rightarrow>
          if cb = None \<and> t \<noteq> XR_ACTION_TYPE_VIBRATION_OUTPUT then (self, Inl ValueError)
          else
            (let self1 = self\<lparr>callback_action_events := (callback_action_events self)(path \<mapsto> cb)\<rparr>;
                 self2 = (if t = XR_ACTION_TYPE_POSE_INPUT
                          then self1\<lparr>callback_action_pose_events :=
                                       (callback_action_pose_events self1)(path \<mapsto> cb)\<rparr>
                          else self1)
             in if disable_openxr self2 then (self2, Inr True)
                else (self2, native_call self2 (addAction rt))))"

text \<open>A subscription request, and a sequence of them run from a given object.\<close>

record subscription =
  sub_path :: string
  sub_callback :: "callback option"
  sub_action_type :: "int option"
  sub_reference_space :: "int option"
  sub_native :: native

fun subscribe_all :: "OpenXR \<Rightarrow> subscription list \<Rightarrow> OpenXR" where
  "subscribe_all self [] = self"
| "subscribe_all self (r # rs) =
     subscribe_all
       (fst (subscribe_action_event self (sub_path r) (sub_callback r) (sub_action_type r)
               (sub_reference_space r) (sub_native r)))
       rs"

text \<open>
  \<open>self._callback_action_events[state.path.decode("utf-8")](state.path.decode("utf-8"), value)\<close>
  and its pybind11 counterpart \<open>self._callback_action_events[state["path"]](state["path"], value)\<close>.
\<close>

definition invoke_ctypes :: "(string \<rightharpoonup> callback option) \<Rightarrow> string option \<Rightarrow> action_value \<Rightarrow> step" where
  "invoke_ctypes d path v =
     (case decode_path path of
        Inl e \<Rightarrow> Raise e
      | Inr p \<Rightarrow> step_of (call_registered d p v))"

definition invoke_pybind :: "(string \<rightharpoonup> callback option) \<Rightarrow> string \<Rightarrow> action_value \<Rightarrow> step" where
  "invoke_pybind d path v = step_of (call_registered d path v)"

text \<open>
  The body of the loop of \<open>poll_actions\<close> on the ctypes transport.  \<open>value\<close> starts as
  \<open>None\<close> and stays so for a type that no branch names.
\<close>

definition poll_body_ctypes :: "OpenXR \<Rightarrow> string option ActionState \<Rightarrow> step" where
  "poll_body_ctypes self state =
     (if as_type state = 0 then Break
      else if as_type state = XR_ACTION_TYPE_BOOLEAN_INPUT then
        invoke_ctypes (callback_action_events self) (as_path state) (PyBool (stateBool state))
      else if as_type state = XR_ACTION_TYPE_FLOAT_INPUT then
        invoke_ctypes (callback_action_events self) (as_path state) (PyFloat (stateFloat state))
      else if as_type state = XR_ACTION_TYPE_VECTOR2F_INPUT then
        invoke_ctypes (callback_action_events self) (as_path state)
          (PyVector2 (stateVectorX state) (stateVectorY state))
      else if as_type state = XR_ACTION_TYPE_POSE_INPUT then Next []
      else if as_type state = XR_ACTION_TYPE_VIBRATION_OUTPUT then Next []
      else invoke_ctypes (callback_action_events self) (as_path state) PyNone)"

text \<open>The body of the loop of \<open>poll_actions\<close> on the pybind11 transport.\<close>

definition poll_body_pybind :: "OpenXR \<Rightarrow> string ActionState \<Rightarrow> step" where
  "poll_body_pybind self state =
     (if as_type state = XR_ACTION_TYPE_BOOLEAN_INPUT then
        invoke_pybind (callback_action_events self) (as_path state) (PyBool (stateBool state))
      else if as_type state = XR_ACTION_TYPE_FLOAT_INPUT then
        invoke_pybind (callback_action_events self) (as_path state) (PyFloat (stateFloat state))
      else if as_type state = XR_ACTION_TYPE_VECTOR2F_INPUT then
        invoke_pybind (callback_action_events self) (as_path state)
          (PyVector2 (stateVectorX state) (stateVectorY state))
      else if as_type state = XR_ACTION_TYPE_POSE_INPUT then Next []
      else if as_type state = XR_ACTION_TYPE_VIBRATION_OUTPUT then Next []
      else invoke_pybind (callback_action_events self) (as_path state) PyNone)"

text \<open>The value of a method that ran a loop: the exception if one ended it.\<close>

definition finish :: "error option \<Rightarrow> 'a \<Rightarrow> error + 'a" where
  "finish r v = (case r of None \<Rightarrow> Inr v | Some e \<Rightarrow> Inl e)"

definition poll_actions :: "OpenXR \<Rightarrow> native \<Rightarrow> invocation list \<times> (error + bool)" where
  "poll_actions self rt =
     (if disable_openxr self then ([], Inr True)
      else if use_ctypes self then
        (case native_call self (pollActions_ctypes rt) of
           Inl e \<Rightarrow> ([], Inl e)
         | Inr (result, requested_action_states) \<Rightarrow>
             (case for_each (poll_body_ctypes self) requested_action_states of
                (tr, r) \<Rightarrow> (tr, finish r result)))
      else
        (case native_call self (pollActions_pybind rt) of
           Inl e \<Rightarrow> ([], Inl e)
         | Inr (result0, result1) \<Rightarrow>
             (case for_each (poll_body_pybind self) result1 of
                (tr, r) \<Rightarrow> (tr, finish r result0))))"

subsection \<open>Rendering and the pose pipeline\<close>

text \<open>
  The value built for a pose:
  \<open>(Gf.Vec3d(p.x, -p.z, p.y) / self._meters_per_unit, Gf.Quatd(o.w, o.x, o.y, o.z))\<close>.
\<close>

definition pose_position :: "OpenXR \<Rightarrow> XrPosef \<Rightarrow> Vec3d" where
  "pose_position self p =
     Vec3d_truediv (vec_x (position p)) (- vec_z (position p)) (vec_y (position p))
       (meters_per_unit self)"

definition pose_orientation :: "XrPosef \<Rightarrow> Quatd" where
  "pose_orientation p =
     Quatd (quat_w (orientation p)) (quat_x (orientation p)) (quat_y (orientation p))
       (quat_z (orientation p))"

definition render_body_ctypes :: "OpenXR \<Rightarrow> string option ActionPoseState \<Rightarrow> step" where
  "render_body_ctypes self state =
     (if aps_type state = XR_ACTION_TYPE_POSE_INPUT \<and> aps_isActive state then
        invoke_ctypes (callback_action_pose_events self) (aps_path state)
          (PyPose (pose_position self (aps_pose state)) (pose_orientation (aps_pose state)))
      else Next [])"

definition render_body_pybind :: "OpenXR \<Rightarrow> string ActionPoseState \<Rightarrow> step" where
  "render_body_pybind self state =
     (if aps_type state = XR_ACTION_TYPE_POSE_INPUT \<and> aps_isActive state then
        invoke_pybind (callback_action_pose_events self) (aps_path state)
          (PyPose (pose_position self (aps_pose state)) (pose_orientation (aps_pose state)))
      else Next [])"

text \<open>
  \<open>subscribe_render_event(callback)\<close>: the callback is stored before the native library
  is told of it.
\<close>

definition subscribe_render_event :: "OpenXR \<Rightarrow> callback option \<Rightarrow> OpenXR \<times> error option" where
  "subscribe_render_event self cb =
     (let self1 = self\<lparr>callback_render :=
                    Some (case cb of None \<Rightarrow> InternalRender | Some c \<Rightarrow> UserRender c)\<rparr>
      in if disable_openxr self1 then (self1, None)
         else (self1\<lparr>callback_middle_render := True\<rparr>,
               if lib_loaded self1 then None else Some AttributeError))"

text \<open>
  The sensor test of \<open>render_views\<close> in stub mode: \<open>self._cam_left.get_rgba()\<close> needs a
  camera when a viewport window is set.
\<close>

definition test_sensor :: "viewport option \<Rightarrow> camera option \<Rightarrow> error option" where
  "test_sensor window cam =
     (if window \<noteq> None \<and> cam = None then Some AttributeError else None)"

definition render_views ::
  "OpenXR \<Rightarrow> int \<Rightarrow> native \<Rightarrow> OpenXR \<times> invocation list \<times> (error + bool)" where
  "render_views self reference_space rt =
     (case (if callback_render self = None then subscribe_render_event self None
            else (self, None)) of
        (self1, Some e) \<Rightarrow> (self1, [], Inl e)
      | (self1, None) \<Rightarrow>
          if disable_openxr self1 then
            (case test_sensor (viewport_window_left self1) (cam_left self1) of
               Some e \<Rightarrow> (self1, [], Inl e)
             | None \<Rightarrow>
                 (case test_sensor (viewport_window_right self1) (cam_right self1) of
                    Some e \<Rightarrow> (self1, [], Inl e)
                  | None \<Rightarrow> (self1, [], Inr True)))
          else if use_ctypes self1 then
            (case native_call self1 (renderViews_ctypes rt) of
               Inl e \<Rightarrow> (self1, [], Inl e)
             | Inr (result, requested_action_pose_states) \<Rightarrow>
                 (case for_each (render_body_ctypes self1) requested_action_pose_states of
                    (tr, r) \<Rightarrow> (self1, tr, finish r result)))
          else
            (case native_call self1 (renderViews_pybind rt) of
               Inl e \<Rightarrow> (self1, [], Inl e)
             | Inr (result0, result1) \<Rightarrow>
                 (case for_each (render_body_pybind self1) result1 of
                    (tr, r) \<Rightarrow> (self1, tr, finish r result0))))"

text \<open>
  \<open>teleport_prim(prim, position, rotation, reference_position, reference_rotation)\<close>
  writes to the host's scene graph.  It is recorded as the call that was made; with
  \<open>prim\<close> being \<open>None\<close> its first statement raises.
\<close>

datatype teleport = Teleport prim Vec3d Quatd "Vec3d option" "Vec3d option"

definition teleport_prim ::
  "prim option \<Rightarrow> Vec3d \<Rightarrow> Quatd \<Rightarrow> Vec3d option \<Rightarrow> Vec3d option \<Rightarrow> error + teleport" where
  "teleport_prim pr pos rot ref_pos ref_rot =
     (case pr of
        None \<Rightarrow> Inl AttributeError
      | Some p \<Rightarrow> Inr (Teleport p pos rot ref_pos ref_rot))"

text \<open>
  The camera part of the closure \<open>_internal_render(num_views, views, configuration_views)\<close>:
  the statements up to the second \<open>teleport_prim\<close>.  The result lists the teleports made,
  and the exception if one ended the call.  (The rest of the closure resets the camera
  resolutions and submits the frames through \<open>set_frames\<close>.)
\<close>

definition internal_render ::
  "OpenXR \<Rightarrow> int \<Rightarrow> XrView list \<Rightarrow> teleport list \<times> error option" where
  "internal_render self num_views views =
     (case views of
        [] \<Rightarrow> ([], Some IndexError)
      | v0 # vs \<Rightarrow>
          (case teleport_prim (prim_left self)
                  (pose_position self (view_pose v0))
                  (Quatd_mul (pose_orientation (view_pose v0)) (rectification_quat_left self))
                  (reference_position self) (reference_rotation self) of
             Inl e \<Rightarrow> ([], Some e)
           | Inr t0 \<Rightarrow>
               if num_views = 2 then
                 (case vs of
                    [] \<Rightarrow> ([t0], Some IndexError)
                  | v1 # _ \<Rightarrow>
                      (case teleport_prim (prim_right self)
                              (pose_position self (view_pose v1))
                              (Quatd_mul (pose_orientation (view_pose v1))
                                 (rectification_quat_right self))
                              (reference_position self) (reference_rotation self) of
                         Inl e \<Rightarrow> ([t0], Some e)
                       | Inr t1 \<Rightarrow> ([t0, t1], None)))
               else ([t0], None)))"

subsection \<open>Frame transformation (definitions)\<close>

text \<open>The \<open>if self._transform_fit:\<close> block of \<open>_transform\<close>.\<close>

definition fit :: "interpolation \<Rightarrow> memory \<Rightarrow> XrViewConfigurationView \<Rightarrow> ndarray
    \<Rightarrow> error + ndarray \<times> memory" where
  "fit interp mem configuration_view frame =
     (case py_truediv (real (shape1 frame)) (real (shape0 frame)) of
        Inl e \<Rightarrow> Inl e
      | Inr current_ratio \<Rightarrow>
          (case py_truediv (real (recommendedImageRectWidth configuration_view))
                  (real (recommendedImageRectHeight configuration_view)) of
             Inl e \<Rightarrow> Inl e
           | Inr recommended_ratio \<Rightarrow>
               (let recommended_size = (recommendedImageRectWidth configuration_view,
                                        recommendedImageRectHeight configuration_view)
                in if current_ratio > recommended_ratio then
                     (let m = py_int (\<bar>recommended_ratio * real (shape0 frame)
                                         - real (shape1 frame)\<bar> / 2)
                      in cv2_resize interp mem (if m \<noteq> 0 then crop_columns frame m else frame)
                           recommended_size)
                   else
                     (case py_truediv (real (shape1 frame)) recommended_ratio of
                        Inl e \<Rightarrow> Inl e
                      | Inr q \<Rightarrow>
                          (let m = py_int (\<bar>q - real (shape0 frame)\<bar> / 2)
                           in cv2_resize interp mem (if m \<noteq> 0 then crop_rows frame m else frame)
                                recommended_size)))))"

text \<open>
  \<open>_transform(configuration_view, frame)\<close>.  \<open>self._transform_fit\<close> is tested for truth,
  \<open>self._transform_flip\<close> for not being \<open>None\<close>.
\<close>

definition transform :: "OpenXR \<Rightarrow> interpolation \<Rightarrow> memory \<Rightarrow> XrViewConfigurationView
    \<Rightarrow> ndarray \<Rightarrow> error + ndarray \<times> memory" where
  "transform self interp mem configuration_view frame =
     (case (case transform_flip self of
              None \<Rightarrow> Inr frame
            | Some ax \<Rightarrow> np_flip frame ax) of
        Inl e \<Rightarrow> Inl e
      | Inr frame1 \<Rightarrow>
          (case (if transform_fit self = Some True
                 then fit interp mem configuration_view frame1
                 else Inr (frame1, mem)) of
             Inl e \<Rightarrow> Inl e
           | Inr (frame2, mem2) \<Rightarrow>
               (let transformed = (transform_flip self \<noteq> None \<or> transform_fit self = Some True)
                in Inr (if transformed then np_array_copy mem2 frame2 else (frame2, mem2)))))"

subsection \<open>The pose conversion as the specification words it\<close>


definition host_position :: "real \<Rightarrow> XrPosef \<Rightarrow> Vec3d" where
  "host_position m p =
     Vec3d (Num (vec_x (position p) / m)) (Num (- vec_z (position p) / m))
       (Num (vec_y (position p) / m))"

definition host_orientation :: "XrPosef \<Rightarrow> Quatd" where
  "host_orientation p =
     Quatd (quat_w (orientation p)) (quat_x (orientation p)) (quat_y (orientation p))
       (quat_z (orientation p))"

subsection \<open>Example objects\<close>

definition idle_native :: native where
  "idle_native =
     \<lparr>createInstance = False, getSystem = False, createSession = False,
      pollEvents = (False, False), pollActions_ctypes = (False, []),
      pollActions_pybind = (False, []), renderViews_ctypes = (False, []),
      renderViews_pybind = (False, []), addAction = False, setFrames = False\<rparr>"

definition grip_pose :: string where
  "grip_pose = ''/user/hand/left/input/grip/pose''"

definition running_example :: OpenXR where
  "running_example =
     (acquire_openxr_interface False)
       \<lparr>lib_loaded := True,
        prim_left := Some (Prim ''/OpenXR/Cameras/left_camera''),
        prim_right := Some (Prim ''/OpenXR/Cameras/right_camera''),
        callback_action_events := [grip_pose \<mapsto> Some (Callable ''callback_action_pose'')],
        callback_action_pose_events := [grip_pose \<mapsto> Some (Callable ''callback_action_pose'')],
        callback_render := Some (UserRender (Callable ''callback_render''))\<rparr>"






subsection \<open>The rectification as the specification words it\<close>

text \<open>
  \<open>axis_rotation a u\<close> is \<open>quat(cos(a/2), sin(a/2)\<cdot>u)\<close>.  \<open>compose_rotations\<close> starts at the
  identity and, for each angle of the list in turn that is not zero, multiplies the
  running product by the rotation of that angle about its axis.
\<close>


definition axis_rotation :: "real \<Rightarrow> real \<times> real \<times> real \<Rightarrow> Quatd" where
  "axis_rotation a u =
     (case u of (ux, uy, uz) \<Rightarrow>
        Quatd (cos (a / 2)) (sin (a / 2) * ux) (sin (a / 2) * uy) (sin (a / 2) * uz))"

definition apply_rotation :: "Quatd \<Rightarrow> real \<times> (real \<times> real \<times> real) \<Rightarrow> Quatd" where
  "apply_rotation q r = (if fst r \<noteq> 0 then Quatd_mul q (axis_rotation (fst r) (snd r)) else q)"

definition compose_rotations :: "(real \<times> (real \<times> real \<times> real)) list \<Rightarrow> Quatd" where
  "compose_rotations rs = foldl apply_rotation (Quatd 1 0 0 0) rs"

definition axis_X :: "real \<times> real \<times> real" where "axis_X = (1, 0, 0)"
definition axis_Y :: "real \<times> real \<times> real" where "axis_Y = (0, 1, 0)"
definition axis_Z :: "real \<times> real \<times> real" where "axis_Z = (0, 0, 1)"

subsection \<open>Sequences of calls and further example objects\<close>


text \<open>A stub-mode object after \<open>init()\<close>.\<close>

definition stub_example :: OpenXR where
  "stub_example = fst (init (acquire_openxr_interface True) ''OpenGL'' False False)"

subsection \<open>Actions as the specification words them\<close>

text \<open>
  The table of suffix classes of the specification; the action type a subscription ends
  up with (given, or inferred from the path); the records \<open>poll_actions\<close> dispatches (all
  but pose and vibration records) and the value each is decoded to; the relation between
  the keys of the two dictionaries of callbacks.
\<close>

definition suffix_classes :: "(string \<times> int) list" where
  "suffix_classes =
     [(''click'', XR_ACTION_TYPE_BOOLEAN_INPUT), (''touch'', XR_ACTION_TYPE_BOOLEAN_INPUT),
      (''value'', XR_ACTION_TYPE_FLOAT_INPUT), (''force'', XR_ACTION_TYPE_FLOAT_INPUT),
      (''x'', XR_ACTION_TYPE_VECTOR2F_INPUT), (''y'', XR_ACTION_TYPE_VECTOR2F_INPUT),
      (''pose'', XR_ACTION_TYPE_POSE_INPUT),
      (''haptic'', XR_ACTION_TYPE_VIBRATION_OUTPUT),
      (''haptic_left'', XR_ACTION_TYPE_VIBRATION_OUTPUT),
      (''haptic_right'', XR_ACTION_TYPE_VIBRATION_OUTPUT),
      (''haptic_left_trigger'', XR_ACTION_TYPE_VIBRATION_OUTPUT),
      (''haptic_right_trigger'', XR_ACTION_TYPE_VIBRATION_OUTPUT)]"

definition haptic_path :: string where
  "haptic_path = ''/user/hand/left/output/haptic''"

definition resolve_action_type :: "string \<Rightarrow> int option \<Rightarrow> error + int" where
  "resolve_action_type path action_type =
     (case action_type of None \<Rightarrow> infer_action_type path | Some t \<Rightarrow> Inr t)"

definition trigger_value :: string where
  "trigger_value = ''/user/hand/left/input/trigger/value''"

definition menu_click :: string where
  "menu_click = ''/user/hand/left/input/menu/click''"

definition dispatched :: "'p ActionState \<Rightarrow> bool" where
  "dispatched s \<longleftrightarrow>
     as_type s \<noteq> XR_ACTION_TYPE_POSE_INPUT \<and> as_type s \<noteq> XR_ACTION_TYPE_VIBRATION_OUTPUT"

definition decoded :: "'p ActionState \<Rightarrow> action_value" where
  "decoded s =
     (if as_type s = XR_ACTION_TYPE_BOOLEAN_INPUT then PyBool (stateBool s)
      else if as_type s = XR_ACTION_TYPE_FLOAT_INPUT then PyFloat (stateFloat s)
      else if as_type s = XR_ACTION_TYPE_VECTOR2F_INPUT
      then PyVector2 (stateVectorX s) (stateVectorY s)
      else PyNone)"

definition action_state :: "int \<Rightarrow> 'p \<Rightarrow> bool \<Rightarrow> bool \<Rightarrow> real \<Rightarrow> real \<Rightarrow> real \<Rightarrow> 'p ActionState" where
  "action_state t p a b f x y =
     \<lparr>as_type = t, as_path = p, as_isActive = a, stateBool = b, stateFloat = f,
      stateVectorX = x, stateVectorY = y\<rparr>"

definition polling_example :: OpenXR where
  "polling_example =
     (acquire_openxr_interface False)
       \<lparr>lib_loaded := True,
        callback_action_events :=
          [menu_click \<mapsto> Some (Callable ''callback_action''),
           trigger_value \<mapsto> Some (Callable ''callback_action''),
           ''/user/hand/left/input/thumbstick/x'' \<mapsto> Some (Callable ''callback_action''),
           grip_pose \<mapsto> Some (Callable ''callback_action_pose''),
           haptic_path \<mapsto> None],
        callback_action_pose_events := [grip_pose \<mapsto> Some (Callable ''callback_action_pose'')]\<rparr>"

definition polled_pybind :: "string ActionState list" where
  "polled_pybind =
     [action_state 1 menu_click True True 0 0 0,
      action_state 4 grip_pose True False 0 0 0,
      action_state 2 trigger_value True False (1 / 2) 0 0,
      action_state 100 haptic_path True False 0 0 0,
      action_state 3 ''/user/hand/left/input/thumbstick/x'' True False 0 (1 / 4) (- 1)]"

definition polled_ctypes :: "string option ActionState list" where
  "polled_ctypes =
     [action_state 1 (Some menu_click) True True 0 0 0,
      action_state 4 (Some grip_pose) True False 0 0 0,
      action_state 2 (Some trigger_value) True False (1 / 2) 0 0,
      action_state 0 None False False 0 0 0,
      action_state 3 (Some ''/user/hand/left/input/thumbstick/x'') True False 0 (1 / 4) (- 1)]"


definition keys_consistent :: "OpenXR \<Rightarrow> bool" where
  "keys_consistent self \<longleftrightarrow>
     dom (callback_action_pose_events self) \<subseteq> dom (callback_action_events self)"


definition subscription_example :: "subscription list" where
  "subscription_example =
     [\<lparr>sub_path = menu_click, sub_callback = Some (Callable ''callback_action''),
       sub_action_type = None, sub_reference_space = Some 2, sub_native = idle_native\<rparr>,
      \<lparr>sub_path = grip_pose, sub_callback = Some (Callable ''callback_action_pose''),
       sub_action_type = None, sub_reference_space = Some 2, sub_native = idle_native\<rparr>,
      \<lparr>sub_path = ''/user/hand/left/input/menu/press'', sub_callback = None,
       sub_action_type = None, sub_reference_space = Some 2, sub_native = idle_native\<rparr>,
      \<lparr>sub_path = haptic_path, sub_callback = None,
       sub_action_type = None, sub_reference_space = Some 2,
       sub_native = idle_native\<lparr>addAction := True\<rparr>\<rparr>]"

subsection \<open>The frame transformation as the specification words it\<close>

text \<open>
  Example frames and an example interpolation kernel (nearest neighbour) to run the
  transformation on; the two margins of the specification,
  \<open>|recommended_ratio \<times> height - width| / 2\<close> and \<open>|width / recommended_ratio - height| / 2\<close>,
  truncated; the scaling of a source to the recommended size; and what it means for a
  transformation to be configured.
\<close>

definition configuration_view :: "nat \<Rightarrow> nat \<Rightarrow> XrViewConfigurationView" where
  "configuration_view w h =
     \<lparr>recommendedImageRectWidth = w, maxImageRectWidth = w,
      recommendedImageRectHeight = h, maxImageRectHeight = h,
      recommendedSwapchainSampleCount = 1, maxSwapchainSampleCount = 1\<rparr>"

definition camera_frame :: "addr \<Rightarrow> nat \<Rightarrow> nat \<Rightarrow> ndarray" where
  "camera_frame a h w =
     \<lparr>buffer = a, shape0 = h, shape1 = w, shape2 = 4, locate = (\<lambda>i j k. (i, j, k))\<rparr>"

definition camera_memory :: memory where
  "camera_memory = \<lparr>next_free = 1, contents = (\<lambda>a (i, j, k). (i + 2 * j + 3 * k) mod 256)\<rparr>"

definition nearest :: interpolation where
  "nearest els shp dsize i j k =
     (case shp of (h, w, c) \<Rightarrow> els (i * h div snd dsize) (j * w div fst dsize) k)"

definition fit_example :: OpenXR where
  "fit_example = set_frame_transformations (acquire_openxr_interface False) True None"

definition column_margin :: "nat \<Rightarrow> nat \<Rightarrow> nat \<Rightarrow> nat \<Rightarrow> nat" where
  "column_margin rw rh h w = py_int (\<bar>real rw / real rh * real h - real w\<bar> / 2)"

definition row_margin :: "nat \<Rightarrow> nat \<Rightarrow> nat \<Rightarrow> nat \<Rightarrow> nat" where
  "row_margin rw rh h w = py_int (\<bar>real w / (real rw / real rh) - real h\<bar> / 2)"

definition shape :: "ndarray \<Rightarrow> nat \<times> nat \<times> nat" where
  "shape a = (shape0 a, shape1 a, shape2 a)"

definition scaled :: "interpolation \<Rightarrow> memory \<Rightarrow> ndarray \<Rightarrow> nat \<Rightarrow> nat \<Rightarrow> ndarray \<times> memory" where
  "scaled interp mem src rw rh =
     allocate mem rh rw (shape2 src) (interp (element mem src) (shape src) (rw, rh))"

definition flip_example :: OpenXR where
  "flip_example =
     set_frame_transformations (acquire_openxr_interface False) False (Some (AxisInt 0))"

definition transformed :: "OpenXR \<Rightarrow> bool" where
  "transformed self \<longleftrightarrow> transform_flip self \<noteq> None \<or> transform_fit self = Some True"

definition flipped :: "OpenXR \<Rightarrow> ndarray \<Rightarrow> error + ndarray" where
  "flipped self frame =
     (case transform_flip self of None \<Rightarrow> Inr frame | Some ax \<Rightarrow> np_flip frame ax)"


text \<open>
  \<open>extends mem mem'\<close>: the memory \<open>mem'\<close> has every buffer of \<open>mem\<close>, with the same
  contents, and possibly new ones.
\<close>

definition extends :: "memory \<Rightarrow> memory \<Rightarrow> bool" where
  "extends mem mem' \<longleftrightarrow>
     next_free mem \<le> next_free mem' \<and> (\<forall>a<next_free mem. contents mem' a = contents mem a)"

section \<open>Properties\<close>

subsection \<open>Loops\<close>

lemmas action_type_defs =
  XR_ACTION_TYPE_BOOLEAN_INPUT_def XR_ACTION_TYPE_FLOAT_INPUT_def
  XR_ACTION_TYPE_VECTOR2F_INPUT_def XR_ACTION_TYPE_POSE_INPUT_def
  XR_ACTION_TYPE_VIBRATION_OUTPUT_def

lemma for_each_Next:
  "(\<And>s. s \<in> set ss \<Longrightarrow> body s = Next (g s)) \<Longrightarrow> for_each body ss = (concat (map g ss), None)"
  by (induction ss) auto

lemma concat_map_if:
  "concat (map (\<lambda>s. if P s then [f s] else []) ss) = map f (filter P ss)"
  by (induction ss) auto

subsection \<open>Pose conversion\<close>

lemma pose_position_nonzero:
  "meters_per_unit self \<noteq> 0 \<Longrightarrow> pose_position self p = host_position (meters_per_unit self) p"
  by (simp add: pose_position_def Vec3d_truediv_def double_div_def host_position_def)

lemma pose_orientation_host: "pose_orientation p = host_orientation p"
  by (simp add: pose_orientation_def host_orientation_def)





lemma internal_render_stereo:
  assumes "meters_per_unit self \<noteq> 0" "prim_left self = Some pl" "prim_right self = Some pr"
  shows "internal_render self 2 (v0 # v1 # vs) =
     ([Teleport pl (host_position (meters_per_unit self) (view_pose v0))
         (Quatd_mul (host_orientation (view_pose v0)) (rectification_quat_left self))
         (reference_position self) (reference_rotation self),
       Teleport pr (host_position (meters_per_unit self) (view_pose v1))
         (Quatd_mul (host_orientation (view_pose v1)) (rectification_quat_right self))
         (reference_position self) (reference_rotation self)], None)"
  using assms
  by (simp add: internal_render_def teleport_prim_def pose_position_nonzero pose_orientation_host)

lemma internal_render_mono:
  assumes "meters_per_unit self \<noteq> 0" "prim_left self = Some pl" "n \<noteq> 2"
  shows "internal_render self n (v0 # vs) =
     ([Teleport pl (host_position (meters_per_unit self) (view_pose v0))
         (Quatd_mul (host_orientation (view_pose v0)) (rectification_quat_left self))
         (reference_position self) (reference_rotation self)], None)"
  using assms
  by (simp add: internal_render_def teleport_prim_def pose_position_nonzero pose_orientation_host)

lemma Quatd_mul_identity: "Quatd_mul q (Quatd 1 0 0 0) = q"
  by (cases q) simp




subsection \<open>Stereo rectification\<close>

lemma rectification_left:
  "rectification_quat_left (set_stereo_rectification self x y z) =
     compose_rotations [(x, axis_X), (y, axis_Y), (z, axis_Z)]"
  by (simp add: set_stereo_rectification_def compose_rotations_def apply_rotation_def
      axis_rotation_def axis_X_def axis_Y_def axis_Z_def Let_def)

lemma rectification_right:
  "rectification_quat_right (set_stereo_rectification self x y z) =
     compose_rotations [(- x, axis_X), (- y, axis_Y), (- z, axis_Z)]"
  by (simp add: set_stereo_rectification_def compose_rotations_def apply_rotation_def
      axis_rotation_def axis_X_def axis_Y_def axis_Z_def Let_def)

lemma quarter_turns_xy:
  "compose_rotations [(pi / 2, axis_X), (pi / 2, axis_Y)] = Quatd (1/2) (1/2) (1/2) (1/2)"
  by (simp add: compose_rotations_def apply_rotation_def
      axis_rotation_def axis_X_def axis_Y_def cos_45 sin_45)

lemma quarter_turns_yx:
  "compose_rotations [(pi / 2, axis_Y), (pi / 2, axis_X)] = Quatd (1/2) (1/2) (1/2) (- 1/2)"
  by (simp add: compose_rotations_def apply_rotation_def
      axis_rotation_def axis_X_def axis_Y_def cos_45 sin_45)

lemma half_turn_x:
  "compose_rotations [(pi, axis_X), (0, axis_Y), (0, axis_Z)] = Quatd 0 1 0 0"
  "compose_rotations [(- pi, axis_X), (- 0, axis_Y), (- 0, axis_Z)] = Quatd 0 (- 1) 0 0"
  by (simp_all add: compose_rotations_def apply_rotation_def
      axis_rotation_def axis_X_def axis_Y_def)

text \<open>
  Claim C2.  \<open>set_stereo_rectification(x, y, z)\<close> rebuilds both quaternions from the
  identity, whatever they were before: all-zero angles give the identity twice; otherwise
  the left one is the product, in the order X, Y, Z and skipping zero angles, of the
  rotations \<open>quat(cos(a/2), sin(a/2)\<cdot>axis)\<close>, and the right one the same with the angles
  negated.  So \<open>x = \<pi>\<close> gives \<open>(0, 1, 0, 0)\<close> and \<open>(0, -1, 0, 0)\<close>, and for
  \<open>x = y = \<pi>/2\<close> the left quaternion differs from the one that applying Y before X gives.
\<close>

theorem stereo_rectification_rebuilt:
  "rectification_quat_left (set_stereo_rectification self 0 0 0) = Quatd 1 0 0 0
   \<and> rectification_quat_right (set_stereo_rectification self 0 0 0) = Quatd 1 0 0 0
   \<and> rectification_quat_left (set_stereo_rectification self x y z) =
       compose_rotations [(x, axis_X), (y, axis_Y), (z, axis_Z)]
   \<and> rectification_quat_right (set_stereo_rectification self x y z) =
       compose_rotations [(- x, axis_X), (- y, axis_Y), (- z, axis_Z)]
   \<and> rectification_quat_left (set_stereo_rectification self pi 0 0) = Quatd 0 1 0 0
   \<and> rectification_quat_right (set_stereo_rectification self pi 0 0) = Quatd 0 (- 1) 0 0
   \<and> rectification_quat_left (set_stereo_rectification self (pi / 2) (pi / 2) 0) =
       Quatd (1/2) (1/2) (1/2) (1/2)
   \<and> compose_rotations [(pi / 2, axis_Y), (pi / 2, axis_X)] = Quatd (1/2) (1/2) (1/2) (- 1/2)
   \<and> rectification_quat_left (set_stereo_rectification self (pi / 2) (pi / 2) 0) \<noteq>
       compose_rotations [(pi / 2, axis_Y), (pi / 2, axis_X)]"
proof -
  have a: "compose_rotations [(0, axis_X), (0, axis_Y), (0, axis_Z)] = Quatd 1 0 0 0"
    by (simp add: compose_rotations_def apply_rotation_def)
  have b: "compose_rotations [(pi / 2, axis_X), (pi / 2, axis_Y), (0, axis_Z)] =
      compose_rotations [(pi / 2, axis_X), (pi / 2, axis_Y)]"
    by (simp add: compose_rotations_def apply_rotation_def)
  show ?thesis
    using a b half_turn_x
    by (simp add: rectification_left rectification_right quarter_turns_xy quarter_turns_yx)
qed

subsection \<open>Unit scale\<close>






subsection \<open>Session set-up and the stub mode\<close>

text \<open>
  \<open>create_session\<close> on a new object, before any other set-up call: in stub mode it
  returns \<open>True\<close>; with the runtime enabled and no library loaded it raises.
\<close>

theorem setup_order_unchecked_counterexample:
  "create_session (acquire_openxr_interface True) idle_native = Inr True
   \<and> create_session (acquire_openxr_interface False) idle_native = Inl AttributeError"
  by (simp add: create_session_def acquire_openxr_interface_def native_call_def)

lemmas enum_defs =
  XR_FORM_FACTOR_HEAD_MOUNTED_DISPLAY_def XR_FORM_FACTOR_HANDHELD_DISPLAY_def
  XR_ENVIRONMENT_BLEND_MODE_OPAQUE_def XR_ENVIRONMENT_BLEND_MODE_ADDITIVE_def
  XR_ENVIRONMENT_BLEND_MODE_ALPHA_BLEND_def XR_VIEW_CONFIGURATION_TYPE_PRIMARY_MONO_def
  XR_VIEW_CONFIGURATION_TYPE_PRIMARY_STEREO_def

text \<open>
  Claim C7, as amended.  The facade keeps no record of the set-up calls made and tests no
  order among them: what \<open>create_instance\<close>, \<open>get_system\<close> (with valid arguments) and
  \<open>create_session\<close> return depends only on the stub flag and on whether the library is
  loaded.  In stub mode each returns \<open>True\<close>; with the library loaded each returns the
  boolean the native call reports, unchanged; with no library loaded each raises
  \<open>AttributeError\<close>.
\<close>

theorem setup_calls_propagate_runtime:
  assumes "f \<in> {1, 2}" "b \<in> {1, 2, 3}" "v \<in> {1, 2}"
  shows
  "(disable_openxr self \<longrightarrow>
      create_instance self rt = Inr True \<and> get_system self f b v rt = Inr True
      \<and> create_session self rt = Inr True)
   \<and> (\<not> disable_openxr self \<and> lib_loaded self \<longrightarrow>
      create_instance self rt = Inr (createInstance rt)
      \<and> get_system self f b v rt = Inr (getSystem rt)
      \<and> create_session self rt = Inr (createSession rt))
   \<and> (\<not> disable_openxr self \<and> \<not> lib_loaded self \<longrightarrow>
      create_instance self rt = Inl AttributeError
      \<and> get_system self f b v rt = Inl AttributeError
      \<and> create_session self rt = Inl AttributeError)
   \<and> (disable_openxr self = disable_openxr other \<and> lib_loaded self = lib_loaded other \<longrightarrow>
      create_instance self rt = create_instance other rt
      \<and> get_system self f b v rt = get_system other f b v rt
      \<and> create_session self rt = create_session other rt)"
  using assms
  by (auto simp: create_instance_def create_session_def get_system_def native_call_def enum_defs)

theorem setup_calls_propagate_runtime_witness:
  "create_session (acquire_openxr_interface True) idle_native = Inr True
   \<and> get_system (acquire_openxr_interface True) 1 1 2 idle_native = Inr True
   \<and> create_session running_example idle_native = Inr False
   \<and> create_session running_example (idle_native\<lparr>createSession := True\<rparr>) = Inr True
   \<and> get_system running_example 1 1 2 (idle_native\<lparr>getSystem := True\<rparr>) = Inr True
   \<and> create_session (acquire_openxr_interface False) idle_native = Inl AttributeError
   \<and> create_session running_example idle_native =
       create_session (running_example\<lparr>callback_render := None\<rparr>) idle_native"
  using setup_calls_propagate_runtime [of 1 1 2 "acquire_openxr_interface True" idle_native
      "acquire_openxr_interface True"]
    setup_calls_propagate_runtime [of 1 1 2 running_example idle_native
      "running_example\<lparr>callback_render := None\<rparr>"]
    setup_calls_propagate_runtime [of 1 1 2 running_example "idle_native\<lparr>createSession := True\<rparr>"
      running_example]
    setup_calls_propagate_runtime [of 1 1 2 running_example "idle_native\<lparr>getSystem := True\<rparr>"
      running_example]
    setup_calls_propagate_runtime [of 1 1 2 "acquire_openxr_interface False" idle_native
      "acquire_openxr_interface False"]
  by (simp add: acquire_openxr_interface_def running_example_def idle_native_def
      create_session_def get_system_def native_call_def enum_defs)

lemma stub_example_eq:
  "stub_example = (acquire_openxr_interface True)
      \<lparr>graphics := Some XR_KHR_OPENGL_ENABLE_EXTENSION_NAME\<rparr>"
  by (simp add: stub_example_def init_def acquire_openxr_interface_def
      XR_KHR_OPENGL_ENABLE_EXTENSION_NAME_def)

text \<open>
  Claim C9.  In stub mode \<open>create_instance\<close>, \<open>get_system\<close> (valid arguments),
  \<open>create_session\<close>, \<open>poll_events\<close>, \<open>poll_actions\<close> and \<open>render_views\<close> each return \<open>True\<close>,
  whatever the native library would answer, and no callback is invoked; \<open>render_views\<close>
  installs the internal render callback when none is set.  The object that \<open>init\<close> returns
  in stub mode is such an object: no library loaded, no viewport, no registered action.
\<close>

theorem stub_mode_cycle:
  assumes "disable_openxr self"
    and "viewport_window_left self = None" "viewport_window_right self = None"
    and "f \<in> {1, 2}" "b \<in> {1, 2, 3}" "v \<in> {1, 2}"
  shows "create_instance self rt = Inr True
     \<and> get_system self f b v rt = Inr True
     \<and> create_session self rt = Inr True
     \<and> poll_events self rt = Inr True
     \<and> poll_actions self rt = ([], Inr True)
     \<and> render_views self rs rt =
         (if callback_render self = None then self\<lparr>callback_render := Some InternalRender\<rparr>
          else self, [], Inr True)
     \<and> snd (init (acquire_openxr_interface True) ''OpenGL'' uc load) = Inr True
     \<and> disable_openxr (fst (init (acquire_openxr_interface True) ''OpenGL'' uc load))
     \<and> \<not> lib_loaded (fst (init (acquire_openxr_interface True) ''OpenGL'' uc load))
     \<and> viewport_window_left (fst (init (acquire_openxr_interface True) ''OpenGL'' uc load)) = None
     \<and> viewport_window_right (fst (init (acquire_openxr_interface True) ''OpenGL'' uc load)) = None
     \<and> callback_action_events (fst (init (acquire_openxr_interface True) ''OpenGL'' uc load)) = Map.empty"
proof -
  have rv: "render_views self rs rt =
         (if callback_render self = None then self\<lparr>callback_render := Some InternalRender\<rparr>
          else self, [], Inr True)"
    using assms(1-3)
    by (cases "callback_render self")
      (simp_all add: render_views_def subscribe_render_event_def test_sensor_def)
  have calls: "create_instance self rt = Inr True \<and> get_system self f b v rt = Inr True
     \<and> create_session self rt = Inr True \<and> poll_events self rt = Inr True
     \<and> poll_actions self rt = ([], Inr True)"
    using assms
    by (auto simp: create_instance_def get_system_def create_session_def poll_events_def
        poll_actions_def enum_defs)
  have ini: "init (acquire_openxr_interface True) ''OpenGL'' uc load =
      ((acquire_openxr_interface True)
         \<lparr>use_ctypes := uc, graphics := Some XR_KHR_OPENGL_ENABLE_EXTENSION_NAME\<rparr>, Inr True)"
    by (simp add: init_def acquire_openxr_interface_def)
  show ?thesis
    using rv calls by (simp add: ini) (simp add: acquire_openxr_interface_def)
qed

theorem stub_mode_cycle_witness:
  "disable_openxr stub_example
   \<and> callback_action_events stub_example = Map.empty
   \<and> create_instance stub_example idle_native = Inr True
   \<and> get_system stub_example 1 1 2 idle_native = Inr True
   \<and> create_session stub_example idle_native = Inr True
   \<and> poll_events stub_example idle_native = Inr True
   \<and> poll_actions stub_example idle_native = ([], Inr True)
   \<and> render_views stub_example 2 idle_native =
       (stub_example\<lparr>callback_render := Some InternalRender\<rparr>, [], Inr True)
   \<and> render_views (stub_example\<lparr>callback_render := Some InternalRender\<rparr>) 2 idle_native =
       (stub_example\<lparr>callback_render := Some InternalRender\<rparr>, [], Inr True)"
  using stub_mode_cycle [of stub_example 1 1 2 idle_native 2 False False]
    stub_mode_cycle [of "stub_example\<lparr>callback_render := Some InternalRender\<rparr>" 1 1 2 idle_native 2
      False False]
  by (simp add: stub_example_eq acquire_openxr_interface_def)

subsection \<open>Subscription\<close>

lemma split_not_Nil: "split sep cs \<noteq> []"
  by (induction cs) (auto split: list.splits)

lemma split_no_sep: "sep \<notin> set cs \<Longrightarrow> split sep cs = [cs]"
  by (induction cs) auto

lemma length_split_sep: "sep \<in> set cs \<Longrightarrow> 2 \<le> length (split sep cs)"
proof (induction cs)
  case Nil
  then show ?case by simp
next
  case (Cons c cs)
  show ?case
  proof (cases "c = sep")
    case True
    then show ?thesis using split_not_Nil [of sep cs] by (cases "split sep cs") auto
  next
    case False
    with Cons show ?thesis by (auto split: list.splits)
  qed
qed

lemma last_split_append:
  "sep \<notin> set seg \<Longrightarrow> last (split sep (pre @ sep # seg)) = seg"
proof (induction pre)
  case Nil
  then show ?case by (simp add: split_no_sep)
next
  case (Cons c pre)
  have two: "2 \<le> length (split sep (pre @ sep # seg))"
    by (rule length_split_sep) simp
  show ?case
  proof (cases "c = sep")
    case True
    then show ?thesis using Cons split_not_Nil [of sep "pre @ sep # seg"] by simp
  next
    case False
    have "\<exists>a b. split sep (pre @ sep # seg) = a # b \<and> b \<noteq> []"
      using two by (cases "split sep (pre @ sep # seg)") auto
    then show ?thesis using False Cons by auto
  qed
qed

lemma last_segment_append:
  "CHR ''/'' \<notin> set seg \<Longrightarrow> last_segment (pre @ CHR ''/'' # seg) = seg"
  by (simp add: last_segment_def last_split_append)

lemma last_segment_whole: "CHR ''/'' \<notin> set seg \<Longrightarrow> last_segment seg = seg"
  by (simp add: last_segment_def split_no_sep)

lemma infer_action_type_table:
  "infer_action_type path =
     (case map_of suffix_classes (last_segment path) of
        None \<Rightarrow> Inl ValueError
      | Some t \<Rightarrow> Inr t)"
  by (simp add: infer_action_type_def suffix_classes_def)


text \<open>
  Claim C5.  The claim has a callback given for a vibration output rejected as a
  configuration error, as the docstring of \<open>subscribe_action_event\<close> demands (``the
  callback must be None'').  The method has no such test.  Run on the subscription that
  the module's own demonstration script makes, of \<open>/user/hand/left/output/haptic\<close> with a
  callback and no action type, it infers the vibration type, stores the callback and
  returns \<open>True\<close>.
\<close>

theorem vibration_callback_accepted:
  "infer_action_type haptic_path = Inr XR_ACTION_TYPE_VIBRATION_OUTPUT
   \<and> subscribe_action_event (acquire_openxr_interface True) haptic_path
       (Some (Callable ''callback_action'')) None (Some 2) idle_native =
     ((acquire_openxr_interface True)
        \<lparr>callback_action_events := [haptic_path \<mapsto> Some (Callable ''callback_action'')]\<rparr>,
      Inr True)"
  by (simp add: subscribe_action_event_def infer_action_type_def haptic_path_def
      last_segment_def action_type_defs acquire_openxr_interface_def)

lemma subscribe_action_event_rejected:
  "resolve_action_type path ty = Inl e \<Longrightarrow>
   subscribe_action_event self path cb ty rs rt = (self, Inl e)"
  by (simp add: subscribe_action_event_def resolve_action_type_def)

lemma subscribe_action_event_no_callback:
  "resolve_action_type path ty = Inr t \<Longrightarrow> t \<noteq> XR_ACTION_TYPE_VIBRATION_OUTPUT \<Longrightarrow>
   subscribe_action_event self path None ty rs rt = (self, Inl ValueError)"
  by (simp add: subscribe_action_event_def resolve_action_type_def)

lemma subscribe_action_event_accepted:
  "resolve_action_type path ty = Inr t \<Longrightarrow> cb \<noteq> None \<or> t = XR_ACTION_TYPE_VIBRATION_OUTPUT \<Longrightarrow>
   subscribe_action_event self path cb ty rs rt =
     ((if t = XR_ACTION_TYPE_POSE_INPUT
       then self\<lparr>callback_action_events := (callback_action_events self)(path \<mapsto> cb),
                 callback_action_pose_events := (callback_action_pose_events self)(path \<mapsto> cb)\<rparr>
       else self\<lparr>callback_action_events := (callback_action_events self)(path \<mapsto> cb)\<rparr>),
      if disable_openxr self then Inr True else native_call self (addAction rt))"
  by (auto simp: subscribe_action_event_def resolve_action_type_def native_call_def Let_def)

text \<open>
  What the method does establish.  With no action type given, the type is the one the
  table of suffix classes gives for the last segment of the path (what follows the last
  \<open>/\<close>), and a segment outside the table raises \<open>ValueError\<close> with nothing registered.  A
  missing callback raises \<open>ValueError\<close> for every type but the vibration output.  For a
  vibration output any callback, given or not, is stored.
\<close>

theorem action_type_inference:
  "infer_action_type path =
     (case map_of suffix_classes (last_segment path) of
        None \<Rightarrow> Inl ValueError
      | Some t \<Rightarrow> Inr t)
   \<and> (CHR ''/'' \<notin> set seg \<longrightarrow>
        last_segment (pre @ CHR ''/'' # seg) = seg \<and> last_segment seg = seg)
   \<and> (map_of suffix_classes (last_segment path) = None \<longrightarrow>
        subscribe_action_event self path cb None rs rt = (self, Inl ValueError))
   \<and> (resolve_action_type path ty = Inr t \<and> t \<noteq> XR_ACTION_TYPE_VIBRATION_OUTPUT \<longrightarrow>
        subscribe_action_event self path None ty rs rt = (self, Inl ValueError))
   \<and> (resolve_action_type path ty = Inr XR_ACTION_TYPE_VIBRATION_OUTPUT \<longrightarrow>
        subscribe_action_event self path cb ty rs rt =
          (self\<lparr>callback_action_events := (callback_action_events self)(path \<mapsto> cb)\<rparr>,
           if disable_openxr self then Inr True else native_call self (addAction rt)))"
proof -
  have 3: "map_of suffix_classes (last_segment path) = None \<longrightarrow>
        subscribe_action_event self path cb None rs rt = (self, Inl ValueError)"
    by (simp add: subscribe_action_event_rejected resolve_action_type_def infer_action_type_table)
  have 5: "resolve_action_type path ty = Inr XR_ACTION_TYPE_VIBRATION_OUTPUT \<longrightarrow>
        subscribe_action_event self path cb ty rs rt =
          (self\<lparr>callback_action_events := (callback_action_events self)(path \<mapsto> cb)\<rparr>,
           if disable_openxr self then Inr True else native_call self (addAction rt))"
    using subscribe_action_event_accepted [of path ty XR_ACTION_TYPE_VIBRATION_OUTPUT cb self rs rt]
    by (simp add: action_type_defs)
  show ?thesis
    using 3 5 infer_action_type_table [of path]
    by (simp add: last_segment_append last_segment_whole subscribe_action_event_no_callback)
qed

theorem action_type_inference_witness:
  "infer_action_type trigger_value = Inr XR_ACTION_TYPE_FLOAT_INPUT
   \<and> infer_action_type menu_click = Inr XR_ACTION_TYPE_BOOLEAN_INPUT
   \<and> last_segment (''/user/hand/left/output'' @ CHR ''/'' # ''haptic'') = ''haptic''
   \<and> subscribe_action_event stub_example ''/user/hand/left/input/menu/press''
        (Some (Callable ''callback_action'')) None (Some 2) idle_native =
      (stub_example, Inl ValueError)
   \<and> subscribe_action_event stub_example menu_click None None (Some 2) idle_native =
      (stub_example, Inl ValueError)
   \<and> subscribe_action_event stub_example haptic_path None None (Some 2) idle_native =
      (stub_example\<lparr>callback_action_events := [haptic_path \<mapsto> None]\<rparr>, Inr True)"
  using action_type_inference [of trigger_value "''haptic''" "''/user/hand/left/output''"
      stub_example "Some (Callable ''callback_action'')" "Some 2" idle_native None 0]
    action_type_inference [of menu_click "''click''" "''/user/hand/left/input/menu''"
      stub_example None "Some 2" idle_native None XR_ACTION_TYPE_BOOLEAN_INPUT]
    action_type_inference [of "''/user/hand/left/input/menu/press''" "''press''"
      "''/user/hand/left/input/menu''"
      stub_example "Some (Callable ''callback_action'')" "Some 2" idle_native None 0]
    action_type_inference [of haptic_path "''haptic''" "''/user/hand/left/output''"
      stub_example None "Some 2" idle_native None 0]
  by (simp add: trigger_value_def menu_click_def haptic_path_def suffix_classes_def
      action_type_defs stub_example_eq acquire_openxr_interface_def resolve_action_type_def
      infer_action_type_def last_segment_def)

lemma subscribe_action_event_cases:
  "(\<exists>e. subscribe_action_event self path cb ty rs rt = (self, Inl e))
   \<or> (\<exists>t r. subscribe_action_event self path cb ty rs rt =
        ((if t = XR_ACTION_TYPE_POSE_INPUT
          then self\<lparr>callback_action_events := (callback_action_events self)(path \<mapsto> cb),
                    callback_action_pose_events := (callback_action_pose_events self)(path \<mapsto> cb)\<rparr>
          else self\<lparr>callback_action_events := (callback_action_events self)(path \<mapsto> cb)\<rparr>), r))"
proof (cases "resolve_action_type path ty")
  case (Inl e)
  then show ?thesis by (simp add: subscribe_action_event_rejected)
next
  case (Inr t)
  show ?thesis
  proof (cases "cb \<noteq> None \<or> t = XR_ACTION_TYPE_VIBRATION_OUTPUT")
    case True
    from subscribe_action_event_accepted [OF Inr True] show ?thesis by blast
  next
    case False
    then show ?thesis using subscribe_action_event_no_callback [OF Inr] by auto
  qed
qed

lemma subscribe_action_event_consistent:
  "keys_consistent self \<Longrightarrow>
   keys_consistent (fst (subscribe_action_event self path cb ty rs rt))"
  using subscribe_action_event_cases [of self path cb ty rs rt]
  unfolding keys_consistent_def subset_iff
  by (elim disjE exE) (auto split: if_splits)

lemma subscribe_action_event_keeps:
  "dom (callback_action_events self) \<subseteq>
     dom (callback_action_events (fst (subscribe_action_event self path cb ty rs rt)))
   \<and> dom (callback_action_pose_events self) \<subseteq>
     dom (callback_action_pose_events (fst (subscribe_action_event self path cb ty rs rt)))"
  using subscribe_action_event_cases [of self path cb ty rs rt]
  unfolding subset_iff
  by (elim disjE exE) (auto split: if_splits)

lemma subscribe_all_consistent:
  "keys_consistent self \<Longrightarrow> keys_consistent (subscribe_all self reqs)"
  by (induction reqs arbitrary: self) (simp_all add: subscribe_action_event_consistent)

lemma subscribe_all_keeps:
  "dom (callback_action_events self) \<subseteq> dom (callback_action_events (subscribe_all self reqs))
   \<and> dom (callback_action_pose_events self) \<subseteq>
       dom (callback_action_pose_events (subscribe_all self reqs))"
proof (induction reqs arbitrary: self)
  case Nil
  then show ?case by simp
next
  case (Cons r reqs)
  show ?case
    using Cons [of "fst (subscribe_action_event self (sub_path r) (sub_callback r)
        (sub_action_type r) (sub_reference_space r) (sub_native r))"]
      subscribe_action_event_keeps [of self "sub_path r" "sub_callback r" "sub_action_type r"
        "sub_reference_space r" "sub_native r"]
    by (simp del: dom_eq_empty_conv) (meson order_trans)
qed

lemma acquire_consistent: "keys_consistent (acquire_openxr_interface d)"
  by (simp add: keys_consistent_def acquire_openxr_interface_def)

text \<open>
  Claim C10.  \<open>subscribe_action_event\<close> keeps the keys of the pose dictionary among the
  keys of the action dictionary, so this holds after any sequence of subscriptions of a
  new object.  A pose subscription puts its path in both dictionaries.  The registration
  is made before the native call: it is there when \<open>addAction\<close> reports \<open>False\<close> and when
  the call raises, and no subscription removes a key.
\<close>

theorem registration_maps_invariant:
  "(keys_consistent self \<longrightarrow>
      keys_consistent (fst (subscribe_action_event self path cb ty rs rt)))
   \<and> keys_consistent (subscribe_all (acquire_openxr_interface d) reqs)
   \<and> (resolve_action_type path ty = Inr XR_ACTION_TYPE_POSE_INPUT \<and> cb = Some c \<longrightarrow>
        callback_action_events (fst (subscribe_action_event self path cb ty rs rt)) path = Some cb
        \<and> callback_action_pose_events (fst (subscribe_action_event self path cb ty rs rt)) path
            = Some cb)
   \<and> (resolve_action_type path ty = Inr t \<and> (cb \<noteq> None \<or> t = XR_ACTION_TYPE_VIBRATION_OUTPUT)
        \<and> \<not> disable_openxr self \<and> lib_loaded self \<and> \<not> addAction rt \<longrightarrow>
        snd (subscribe_action_event self path cb ty rs rt) = Inr False
        \<and> callback_action_events (fst (subscribe_action_event self path cb ty rs rt)) path = Some cb)
   \<and> (resolve_action_type path ty = Inr t \<and> (cb \<noteq> None \<or> t = XR_ACTION_TYPE_VIBRATION_OUTPUT)
        \<and> \<not> disable_openxr self \<and> \<not> lib_loaded self \<longrightarrow>
        snd (subscribe_action_event self path cb ty rs rt) = Inl AttributeError
        \<and> callback_action_events (fst (subscribe_action_event self path cb ty rs rt)) path = Some cb)
   \<and> dom (callback_action_events self) \<subseteq> dom (callback_action_events (subscribe_all self reqs))
   \<and> dom (callback_action_pose_events self) \<subseteq>
       dom (callback_action_pose_events (subscribe_all self reqs))"
proof -
  have 3: "resolve_action_type path ty = Inr XR_ACTION_TYPE_POSE_INPUT \<and> cb = Some c \<longrightarrow>
        callback_action_events (fst (subscribe_action_event self path cb ty rs rt)) path = Some cb
        \<and> callback_action_pose_events (fst (subscribe_action_event self path cb ty rs rt)) path
            = Some cb"
    by (auto simp: subscribe_action_event_accepted)
  have 4: "resolve_action_type path ty = Inr t \<and> (cb \<noteq> None \<or> t = XR_ACTION_TYPE_VIBRATION_OUTPUT)
        \<and> \<not> disable_openxr self \<and> lib_loaded self \<and> \<not> addAction rt \<longrightarrow>
        snd (subscribe_action_event self path cb ty rs rt) = Inr False
        \<and> callback_action_events (fst (subscribe_action_event self path cb ty rs rt)) path = Some cb"
    by (auto simp: subscribe_action_event_accepted native_call_def)
  have 5: "resolve_action_type path ty = Inr t \<and> (cb \<noteq> None \<or> t = XR_ACTION_TYPE_VIBRATION_OUTPUT)
        \<and> \<not> disable_openxr self \<and> \<not> lib_loaded self \<longrightarrow>
        snd (subscribe_action_event self path cb ty rs rt) = Inl AttributeError
        \<and> callback_action_events (fst (subscribe_action_event self path cb ty rs rt)) path = Some cb"
    by (auto simp: subscribe_action_event_accepted native_call_def)
  show ?thesis
    using 3 4 5 subscribe_all_keeps [of self reqs]
      subscribe_all_consistent [OF acquire_consistent, of d reqs]
    by (simp add: subscribe_action_event_consistent)
qed

theorem registration_maps_invariant_witness:
  "keys_consistent running_example
   \<and> keys_consistent (fst (subscribe_action_event running_example
        ''/user/hand/right/input/grip/pose'' (Some (Callable ''callback_action_pose'')) None
        (Some 2) idle_native))
   \<and> subscribe_action_event running_example
        ''/user/hand/right/input/grip/pose'' (Some (Callable ''callback_action_pose'')) None
        (Some 2) idle_native =
      (running_example
         \<lparr>callback_action_events :=
            [grip_pose \<mapsto> Some (Callable ''callback_action_pose''),
             ''/user/hand/right/input/grip/pose'' \<mapsto> Some (Callable ''callback_action_pose'')],
          callback_action_pose_events :=
            [grip_pose \<mapsto> Some (Callable ''callback_action_pose''),
             ''/user/hand/right/input/grip/pose'' \<mapsto> Some (Callable ''callback_action_pose'')]\<rparr>,
       Inr False)
   \<and> snd (subscribe_action_event (acquire_openxr_interface False)
        ''/user/hand/right/input/grip/pose'' (Some (Callable ''callback_action_pose'')) None
        (Some 2) idle_native) = Inl AttributeError
   \<and> callback_action_events (fst (subscribe_action_event (acquire_openxr_interface False)
        ''/user/hand/right/input/grip/pose'' (Some (Callable ''callback_action_pose'')) None
        (Some 2) idle_native)) ''/user/hand/right/input/grip/pose''
      = Some (Some (Callable ''callback_action_pose''))
   \<and> dom (callback_action_events (subscribe_all running_example subscription_example)) =
        {menu_click, grip_pose, haptic_path}
   \<and> dom (callback_action_pose_events (subscribe_all running_example subscription_example)) =
        {grip_pose}"
  using registration_maps_invariant [where self = running_example
      and path = "''/user/hand/right/input/grip/pose''"
      and cb = "Some (Callable ''callback_action_pose'')" and c = "Callable ''callback_action_pose''"
      and ty = None and rs = "Some 2" and rt = idle_native and t = XR_ACTION_TYPE_POSE_INPUT
      and d = False and reqs = subscription_example]
    registration_maps_invariant [where self = "acquire_openxr_interface False"
      and path = "''/user/hand/right/input/grip/pose''"
      and cb = "Some (Callable ''callback_action_pose'')" and c = "Callable ''callback_action_pose''"
      and ty = None and rs = "Some 2" and rt = idle_native and t = XR_ACTION_TYPE_POSE_INPUT
      and d = False and reqs = subscription_example]
  by (simp add: keys_consistent_def running_example_def acquire_openxr_interface_def
      subscription_example_def subscribe_action_event_def infer_action_type_def last_segment_def
      grip_pose_def menu_click_def haptic_path_def action_type_defs native_call_def idle_native_def
      insert_commute)

subsection \<open>Polling\<close>

lemma for_each_Break:
  assumes "\<And>s. s \<in> set (takeWhile (\<lambda>s. \<not> stop s) ss) \<Longrightarrow> body s = Next (g s)"
    and "\<And>s. stop s \<Longrightarrow> body s = Break"
  shows "for_each body ss = (concat (map g (takeWhile (\<lambda>s. \<not> stop s) ss)), None)"
  using assms(1)
proof (induction ss)
  case Nil
  then show ?case by simp
next
  case (Cons s ss)
  show ?case
  proof (cases "stop s")
    case True
    then show ?thesis by (simp add: assms(2))
  next
    case False
    then have "body s = Next (g s)" using Cons.prems by simp
    moreover have "for_each body ss = (concat (map g (takeWhile (\<lambda>s. \<not> stop s) ss)), None)"
      using Cons.prems False by (intro Cons.IH) simp
    ultimately show ?thesis using False by simp
  qed
qed

lemma poll_body_pybind_dispatched:
  assumes "dispatched s \<Longrightarrow> callback_action_events self (as_path s) = Some (Some (cb (as_path s)))"
  shows "poll_body_pybind self s =
     Next (if dispatched s then [(cb (as_path s), as_path s, decoded s)] else [])"
  using assms
  by (auto simp: poll_body_pybind_def dispatched_def decoded_def invoke_pybind_def step_of_def
      call_registered_def action_type_defs)

lemma poll_body_ctypes_dispatched:
  assumes "as_type s \<noteq> 0"
    and "dispatched s \<Longrightarrow> as_path s = Some (pth s) \<and>
           callback_action_events self (pth s) = Some (Some (cb (pth s)))"
  shows "poll_body_ctypes self s =
     Next (if dispatched s then [(cb (pth s), pth s, decoded s)] else [])"
  using assms
  by (auto simp: poll_body_ctypes_def dispatched_def decoded_def invoke_ctypes_def decode_path_def
      step_of_def call_registered_def action_type_defs)

lemma poll_body_ctypes_terminator: "as_type s = 0 \<Longrightarrow> poll_body_ctypes self s = Break"
  by (simp add: poll_body_ctypes_def)

lemma poll_actions_pybind_trace:
  assumes run: "\<not> disable_openxr self" "lib_loaded self" "\<not> use_ctypes self"
    and reply: "pollActions_pybind rt = (res, states)"
    and reg: "\<forall>s\<in>set states. dispatched s \<longrightarrow>
          callback_action_events self (as_path s) = Some (Some (cb (as_path s)))"
  shows "poll_actions self rt =
     (map (\<lambda>s. (cb (as_path s), as_path s, decoded s)) (filter dispatched states), Inr res)"
proof -
  have "for_each (poll_body_pybind self) states =
      (concat (map (\<lambda>s. if dispatched s then [(cb (as_path s), as_path s, decoded s)] else [])
         states), None)"
    by (rule for_each_Next) (use reg in \<open>simp add: poll_body_pybind_dispatched\<close>)
  then show ?thesis
    using run reply
    by (simp add: poll_actions_def native_call_def finish_def concat_map_if)
qed

lemma poll_actions_ctypes_trace:
  assumes run: "\<not> disable_openxr self" "lib_loaded self" "use_ctypes self"
    and reply: "pollActions_ctypes rt = (res, states)"
    and reg: "\<forall>s\<in>set (takeWhile (\<lambda>s. as_type s \<noteq> 0) states). dispatched s \<longrightarrow>
          as_path s = Some (pth s) \<and> callback_action_events self (pth s) = Some (Some (cb (pth s)))"
  shows "poll_actions self rt =
     (map (\<lambda>s. (cb (pth s), pth s, decoded s))
        (filter dispatched (takeWhile (\<lambda>s. as_type s \<noteq> 0) states)), Inr res)"
proof -
  have "for_each (poll_body_ctypes self) states =
      (concat (map (\<lambda>s. if dispatched s then [(cb (pth s), pth s, decoded s)] else [])
         (takeWhile (\<lambda>s. \<not> as_type s = 0) states)), None)"
  proof (rule for_each_Break)
    fix s assume "s \<in> set (takeWhile (\<lambda>s. \<not> as_type s = 0) states)"
    then have "as_type s \<noteq> 0" and "dispatched s \<longrightarrow>
          as_path s = Some (pth s) \<and> callback_action_events self (pth s) = Some (Some (cb (pth s)))"
      using reg by (auto dest: set_takeWhileD)
    then show "poll_body_ctypes self s =
        Next (if dispatched s then [(cb (pth s), pth s, decoded s)] else [])"
      by (intro poll_body_ctypes_dispatched) auto
  next
    fix s :: "string option ActionState" assume "as_type s = 0"
    then show "poll_body_ctypes self s = Break" by (rule poll_body_ctypes_terminator)
  qed
  then show ?thesis
    using run reply
    by (simp add: poll_actions_def native_call_def finish_def concat_map_if)
qed

text \<open>
  Claim C6.  With every dispatched path registered with a callable, \<open>poll_actions\<close>
  reports the runtime's flag and invokes, in the order of the records and once per
  record, the callback of each record that is neither a pose nor a vibration record, with
  the path and the decoded value: the boolean, the float or the pair \<open>(x, y)\<close>.  On the
  ctypes transport only the records before the first one of type 0 count.  (The loop
  does not read \<open>isActive\<close>: active and inactive records are treated alike, and a record
  of a type outside the five known ones is dispatched with \<open>None\<close>.)
\<close>

theorem poll_actions_dispatch:
  assumes run: "\<not> disable_openxr self" "lib_loaded self"
    and reg_p: "\<forall>s\<in>set states_p. dispatched s \<longrightarrow>
          callback_action_events self (as_path s) = Some (Some (cb (as_path s)))"
    and reg_c: "\<forall>s\<in>set (takeWhile (\<lambda>s. as_type s \<noteq> 0) states_c). dispatched s \<longrightarrow>
          as_path s = Some (pth s) \<and> callback_action_events self (pth s) = Some (Some (cb (pth s)))"
  shows "poll_actions (self\<lparr>use_ctypes := False\<rparr>) (rt\<lparr>pollActions_pybind := (res, states_p)\<rparr>) =
           (map (\<lambda>s. (cb (as_path s), as_path s, decoded s)) (filter dispatched states_p), Inr res)
       \<and> poll_actions (self\<lparr>use_ctypes := True\<rparr>) (rt\<lparr>pollActions_ctypes := (res, states_c)\<rparr>) =
           (map (\<lambda>s. (cb (pth s), pth s, decoded s))
              (filter dispatched (takeWhile (\<lambda>s. as_type s \<noteq> 0) states_c)), Inr res)
       \<and> (\<forall>s :: string ActionState.
             (as_type s = XR_ACTION_TYPE_BOOLEAN_INPUT \<longrightarrow>
                dispatched s \<and> decoded s = PyBool (stateBool s))
           \<and> (as_type s = XR_ACTION_TYPE_FLOAT_INPUT \<longrightarrow>
                dispatched s \<and> decoded s = PyFloat (stateFloat s))
           \<and> (as_type s = XR_ACTION_TYPE_VECTOR2F_INPUT \<longrightarrow>
                dispatched s \<and> decoded s = PyVector2 (stateVectorX s) (stateVectorY s))
           \<and> (as_type s = XR_ACTION_TYPE_POSE_INPUT \<or> as_type s = XR_ACTION_TYPE_VIBRATION_OUTPUT
                \<longrightarrow> \<not> dispatched s))
       \<and> (\<forall>s :: string option ActionState.
             (as_type s = XR_ACTION_TYPE_BOOLEAN_INPUT \<longrightarrow>
                dispatched s \<and> decoded s = PyBool (stateBool s))
           \<and> (as_type s = XR_ACTION_TYPE_FLOAT_INPUT \<longrightarrow>
                dispatched s \<and> decoded s = PyFloat (stateFloat s))
           \<and> (as_type s = XR_ACTION_TYPE_VECTOR2F_INPUT \<longrightarrow>
                dispatched s \<and> decoded s = PyVector2 (stateVectorX s) (stateVectorY s))
           \<and> (as_type s = XR_ACTION_TYPE_POSE_INPUT \<or> as_type s = XR_ACTION_TYPE_VIBRATION_OUTPUT
                \<longrightarrow> \<not> dispatched s))"
proof -
  have 1: "poll_actions (self\<lparr>use_ctypes := False\<rparr>) (rt\<lparr>pollActions_pybind := (res, states_p)\<rparr>) =
           (map (\<lambda>s. (cb (as_path s), as_path s, decoded s)) (filter dispatched states_p), Inr res)"
    by (rule poll_actions_pybind_trace) (use run reg_p in simp_all)
  have 2: "poll_actions (self\<lparr>use_ctypes := True\<rparr>) (rt\<lparr>pollActions_ctypes := (res, states_c)\<rparr>) =
           (map (\<lambda>s. (cb (pth s), pth s, decoded s))
              (filter dispatched (takeWhile (\<lambda>s. as_type s \<noteq> 0) states_c)), Inr res)"
    by (rule poll_actions_ctypes_trace) (use run reg_c in simp_all)
  show ?thesis
    unfolding 1 2 by (simp add: dispatched_def decoded_def action_type_defs)
qed

theorem poll_actions_dispatch_witness:
  "poll_actions (polling_example\<lparr>use_ctypes := False\<rparr>)
       (idle_native\<lparr>pollActions_pybind := (True, polled_pybind)\<rparr>) =
     ([(Callable ''callback_action'', menu_click, PyBool True),
       (Callable ''callback_action'', trigger_value, PyFloat (1 / 2)),
       (Callable ''callback_action'', ''/user/hand/left/input/thumbstick/x'',
        PyVector2 (1 / 4) (- 1))], Inr True)
   \<and> poll_actions (polling_example\<lparr>use_ctypes := True\<rparr>)
       (idle_native\<lparr>pollActions_ctypes := (True, polled_ctypes)\<rparr>) =
     ([(Callable ''callback_action'', menu_click, PyBool True),
       (Callable ''callback_action'', trigger_value, PyFloat (1 / 2))], Inr True)"
  using poll_actions_dispatch [where self = polling_example and states_p = polled_pybind
      and states_c = polled_ctypes and cb = "\<lambda>_. Callable ''callback_action''"
      and pth = "\<lambda>s. the (as_path s)" and rt = idle_native and res = True]
  by (simp add: polling_example_def acquire_openxr_interface_def polled_pybind_def
      polled_ctypes_def action_state_def dispatched_def decoded_def action_type_defs
      menu_click_def trigger_value_def grip_pose_def haptic_path_def)

subsection \<open>Frame transformation\<close>

lemma py_int_le: "0 \<le> v \<Longrightarrow> real (py_int v) \<le> v"
  by (simp add: py_int_def)

lemma margin_bound:
  assumes "0 < d" "d < real n"
  shows "2 * py_int (\<bar>d - real n\<bar> / 2) < n"
proof -
  have "real (py_int (\<bar>d - real n\<bar> / 2)) \<le> \<bar>d - real n\<bar> / 2"
    by (rule py_int_le) simp
  also have "\<dots> = (real n - d) / 2" using assms by simp
  finally have "2 * real (py_int (\<bar>d - real n\<bar> / 2)) < real n" using assms by simp
  then show ?thesis by (metis of_nat_less_iff of_nat_mult of_nat_numeral)
qed

lemma margin_bound_le:
  assumes "0 < d" "d \<le> real n"
  shows "2 * py_int (\<bar>d - real n\<bar> / 2) < n"
proof -
  have "real (py_int (\<bar>d - real n\<bar> / 2)) \<le> \<bar>d - real n\<bar> / 2"
    by (rule py_int_le) simp
  also have "\<dots> = (real n - d) / 2" using assms by simp
  finally have "2 * real (py_int (\<bar>d - real n\<bar> / 2)) < real n" using assms by simp
  then show ?thesis by (metis of_nat_less_iff of_nat_mult of_nat_numeral)
qed

lemma column_margin_bound:
  assumes "0 < h" "0 < rw" "0 < rh" "real w / real h > real rw / real rh"
  shows "2 * column_margin rw rh h w < w"
proof -
  have "real rw / real rh * real h < real w"
    using assms by (simp add: field_simps)
  moreover have "0 < real rw / real rh * real h" using assms by simp
  ultimately show ?thesis unfolding column_margin_def by (intro margin_bound)
qed

lemma row_margin_bound:
  assumes "0 < h" "0 < w" "0 < rw" "0 < rh" "\<not> real w / real h > real rw / real rh"
  shows "2 * row_margin rw rh h w < h"
proof -
  have "real w / real h \<le> real rw / real rh" using assms by simp
  then have "real w * real rh \<le> real rw * real h"
    using assms by (simp add: field_simps)
  then have "real w / (real rw / real rh) \<le> real h"
    using assms by (simp add: field_simps)
  moreover have "0 < real w / (real rw / real rh)" using assms by simp
  ultimately show ?thesis unfolding row_margin_def by (intro margin_bound_le)
qed

lemma fit_wider:
  assumes "0 < shape0 frame" "0 < recommendedImageRectWidth cv" "0 < recommendedImageRectHeight cv"
    and "real (shape1 frame) / real (shape0 frame) >
         real (recommendedImageRectWidth cv) / real (recommendedImageRectHeight cv)"
  shows "fit interp mem cv frame =
     Inr (scaled interp mem
            (if column_margin (recommendedImageRectWidth cv) (recommendedImageRectHeight cv)
                  (shape0 frame) (shape1 frame) \<noteq> 0
             then crop_columns frame
                    (column_margin (recommendedImageRectWidth cv) (recommendedImageRectHeight cv)
                       (shape0 frame) (shape1 frame))
             else frame)
            (recommendedImageRectWidth cv) (recommendedImageRectHeight cv))"
proof -
  have b: "2 * column_margin (recommendedImageRectWidth cv) (recommendedImageRectHeight cv)
                  (shape0 frame) (shape1 frame) < shape1 frame"
    using assms by (intro column_margin_bound)
  then have "0 < shape1 frame" by simp
  with b assms show ?thesis
    by (simp add: fit_def py_truediv_def Let_def cv2_resize_def scaled_def shape_def
        crop_columns_def column_margin_def)
qed

lemma fit_narrower:
  assumes "0 < shape0 frame" "0 < shape1 frame"
    "0 < recommendedImageRectWidth cv" "0 < recommendedImageRectHeight cv"
    and "\<not> real (shape1 frame) / real (shape0 frame) >
         real (recommendedImageRectWidth cv) / real (recommendedImageRectHeight cv)"
  shows "fit interp mem cv frame =
     Inr (scaled interp mem
            (if row_margin (recommendedImageRectWidth cv) (recommendedImageRectHeight cv)
                  (shape0 frame) (shape1 frame) \<noteq> 0
             then crop_rows frame
                    (row_margin (recommendedImageRectWidth cv) (recommendedImageRectHeight cv)
                       (shape0 frame) (shape1 frame))
             else frame)
            (recommendedImageRectWidth cv) (recommendedImageRectHeight cv))"
proof -
  have b: "2 * row_margin (recommendedImageRectWidth cv) (recommendedImageRectHeight cv)
                  (shape0 frame) (shape1 frame) < shape0 frame"
    using assms by (intro row_margin_bound)
  with assms show ?thesis
    by (simp add: fit_def py_truediv_def Let_def cv2_resize_def scaled_def shape_def
        crop_rows_def row_margin_def)
qed








lemma extends_refl: "extends mem mem"
  by (simp add: extends_def)

lemma extends_trans: "extends m1 m2 \<Longrightarrow> extends m2 m3 \<Longrightarrow> extends m1 m3"
  by (auto simp: extends_def)

lemma allocate_fresh:
  "allocate mem h w c els = (a, mem') \<Longrightarrow>
   buffer a = next_free mem \<and> next_free mem' = Suc (next_free mem)
   \<and> shape a = (h, w, c) \<and> locate a = (\<lambda>i j k. (i, j, k)) \<and> extends mem mem'
   \<and> (\<forall>i j k. element mem' a i j k = els i j k)"
  by (auto simp: allocate_def shape_def extends_def element_def)

lemma np_array_copy_fresh:
  "np_array_copy mem2 f2 = (r, mem') \<Longrightarrow>
   buffer r = next_free mem2 \<and> next_free mem' = Suc (next_free mem2)
   \<and> shape r = shape f2 \<and> locate r = (\<lambda>i j k. (i, j, k)) \<and> extends mem2 mem'
   \<and> (\<forall>i j k. element mem' r i j k = element mem2 f2 i j k)"
  unfolding np_array_copy_def by (drule allocate_fresh) (simp add: shape_def)

lemma cv2_resize_extends:
  "cv2_resize interp mem src dsize = Inr (f2, mem2) \<Longrightarrow> extends mem mem2"
  by (auto simp: cv2_resize_def split: if_splits dest: allocate_fresh)

lemma fit_extends: "fit interp mem cv frame = Inr (f2, mem2) \<Longrightarrow> extends mem mem2"
  by (auto simp: fit_def py_truediv_def Let_def split: if_splits dest: cv2_resize_extends)

lemma transform_untouched:
  "\<not> transformed self \<Longrightarrow> transform self interp mem cv frame = Inr (frame, mem)"
  by (auto simp: transformed_def transform_def)

lemma transform_copies:
  assumes "transformed self" "transform self interp mem cv frame = Inr (r, mem')"
  shows "\<exists>f1 f2 mem2. flipped self frame = Inr f1
           \<and> (if transform_fit self = Some True then fit interp mem cv f1 = Inr (f2, mem2)
               else f2 = f1 \<and> mem2 = mem)
           \<and> np_array_copy mem2 f2 = (r, mem')"
  using assms
  by (auto simp: transformed_def transform_def flipped_def Let_def
      split: sum.splits option.splits if_splits)

lemma transform_flipped_fit:
  assumes "transformed self" "flipped self frame = Inr f1"
    and "if transform_fit self = Some True then fit interp mem cv f1 = Inr (f2, mem2)
         else f2 = f1 \<and> mem2 = mem"
  shows "transform self interp mem cv frame = Inr (np_array_copy mem2 f2)"
  using assms
  by (auto simp: transformed_def transform_def flipped_def Let_def
      split: sum.splits option.splits if_splits)

lemma np_flip_view:
  "normalize_axis_tuple ax = Inr ns \<Longrightarrow>
   \<exists>f1. np_flip frame ax = Inr f1 \<and> shape f1 = shape frame \<and> buffer f1 = buffer frame
     \<and> (\<forall>mem i j k. element mem f1 i j k =
           element mem frame (mirror (0 \<in> set ns) (shape0 frame) i)
             (mirror (1 \<in> set ns) (shape1 frame) j) (mirror (2 \<in> set ns) (shape2 frame) k))"
  by (simp add: np_flip_def shape_def element_def)

lemma transform_fresh:
  assumes alloc: "buffer frame < next_free mem"
    and t: "transformed self" "transform self interp mem cv frame = Inr (r, mem')"
  shows "next_free mem \<le> buffer r \<and> buffer r < next_free mem' \<and> buffer r \<noteq> buffer frame
       \<and> locate r = (\<lambda>i j k. (i, j, k))
       \<and> extends mem mem'"
proof -
  from transform_copies [OF t] obtain f1 f2 mem2 where
    f: "if transform_fit self = Some True then fit interp mem cv f1 = Inr (f2, mem2)
        else f2 = f1 \<and> mem2 = mem"
    and c: "np_array_copy mem2 f2 = (r, mem')"
    by blast
  have e: "extends mem mem2"
    using f by (auto split: if_splits intro: extends_refl dest: fit_extends)
  from np_array_copy_fresh [OF c] have
    r: "buffer r = next_free mem2" "next_free mem' = Suc (next_free mem2)"
      "locate r = (\<lambda>i j k. (i, j, k))" "extends mem2 mem'"
    by simp_all
  have "extends mem mem'" using e r(4) by (rule extends_trans)
  moreover have "next_free mem \<le> next_free mem2" using e by (simp add: extends_def)
  ultimately show ?thesis using r alloc by simp
qed

lemma extends_element:
  "extends mem mem' \<Longrightarrow> buffer frame < next_free mem \<Longrightarrow>
   element mem' frame i j k = element mem frame i j k"
  by (simp add: extends_def element_def)

lemma store_element_other:
  "buffer r \<noteq> buffer frame \<Longrightarrow>
   element (store_element mem r i j k v) frame i' j' k' = element mem frame i' j' k'"
  by (simp add: store_element_def element_def)


lemma fit_total:
  assumes "0 < shape0 frame" "0 < shape1 frame"
    "0 < recommendedImageRectWidth cv" "0 < recommendedImageRectHeight cv"
  shows "\<exists>f2 mem2. fit interp mem cv frame = Inr (f2, mem2)
           \<and> shape f2 = (recommendedImageRectHeight cv, recommendedImageRectWidth cv, shape2 frame)"
proof (cases "real (shape1 frame) / real (shape0 frame) >
         real (recommendedImageRectWidth cv) / real (recommendedImageRectHeight cv)")
  case True
  from fit_wider [OF assms(1,3,4) True, of interp mem] show ?thesis
    by (auto simp: scaled_def allocate_def shape_def crop_columns_def)
next
  case False
  from fit_narrower [OF assms False, of interp mem] show ?thesis
    by (auto simp: scaled_def allocate_def shape_def crop_rows_def)
qed

lemma flipped_total:
  assumes "transform_flip self = None \<or>
      (\<exists>ax ns. transform_flip self = Some ax \<and> normalize_axis_tuple ax = Inr ns)"
  shows "\<exists>f1. flipped self frame = Inr f1 \<and> shape f1 = shape frame"
  using assms np_flip_view [of _ _ frame]
  by (auto simp: flipped_def) blast

lemma transform_total:
  assumes fl: "transform_flip self = None \<or>
      (\<exists>ax ns. transform_flip self = Some ax \<and> normalize_axis_tuple ax = Inr ns)"
    and ft: "transform_fit self = Some True \<longrightarrow>
      0 < shape0 frame \<and> 0 < shape1 frame
      \<and> 0 < recommendedImageRectWidth cv \<and> 0 < recommendedImageRectHeight cv"
  shows "\<exists>r mem'. transform self interp mem cv frame = Inr (r, mem')"
proof (cases "transformed self")
  case False
  then show ?thesis by (simp add: transform_untouched)
next
  case True
  from flipped_total [OF fl, of frame] obtain f1 where
    f1: "flipped self frame = Inr f1" "shape f1 = shape frame" by blast
  show ?thesis
  proof (cases "transform_fit self = Some True")
    case fit: True
    with ft f1(2) have "0 < shape0 f1" "0 < shape1 f1"
      "0 < recommendedImageRectWidth cv" "0 < recommendedImageRectHeight cv"
      by (simp_all add: shape_def)
    from fit_total [OF this, of interp mem] obtain f2 mem2 where
      "fit interp mem cv f1 = Inr (f2, mem2)" by blast
    with transform_flipped_fit [OF True f1(1), of interp mem cv f2 mem2] fit
    show ?thesis by (cases "np_array_copy mem2 f2") simp
  next
    case nofit: False
    with transform_flipped_fit [OF True f1(1), of interp mem cv f1 mem]
    show ?thesis by (cases "np_array_copy mem f1") simp
  qed
qed

text \<open>
  Claim C4.  For a frame that lives in the memory: with neither flip nor fit configured,
  \<open>_transform\<close> returns the frame it was given and leaves the memory as it is.  With flip
  or fit configured, what it returns is an array in a buffer allocated by the call, so
  not the buffer of the frame; the buffers that existed before, the frame's among them,
  keep their contents, and a later write into the returned array does not change what
  the frame reads.  The returned array has the shape and the elements of the flipped
  and/or fitted image.  The call returns (rather than raises) whenever the flip axes
  are valid and, if fit is configured, the frame and the recommended size have positive
  sides.
\<close>

theorem transform_copy_on_modify:
  assumes alloc: "buffer frame < next_free mem"
  shows
   "(\<not> transformed self \<longrightarrow> transform self interp mem cv frame = Inr (frame, mem))
    \<and> (transformed self \<and> transform self interp mem cv frame = Inr (r, mem') \<longrightarrow>
         next_free mem \<le> buffer r \<and> buffer r < next_free mem' \<and> buffer r \<noteq> buffer frame
         \<and> (\<forall>a<next_free mem. contents mem' a = contents mem a)
         \<and> element mem' frame i j k = element mem frame i j k
         \<and> element (store_element mem' r i' j' k' v) frame i j k = element mem frame i j k)
    \<and> (transformed self \<and> flipped self frame = Inr f1
         \<and> (if transform_fit self = Some True then fit interp mem cv f1 = Inr (f2, mem2)
             else f2 = f1 \<and> mem2 = mem) \<longrightarrow>
         (\<exists>r mem'. transform self interp mem cv frame = Inr (r, mem')
            \<and> shape r = shape f2
            \<and> (\<forall>i j k. element mem' r i j k = element mem2 f2 i j k)))
    \<and> (transform_flip self = Some ax \<and> normalize_axis_tuple ax = Inr ns \<longrightarrow>
         (\<exists>f1. flipped self frame = Inr f1 \<and> shape f1 = shape frame
            \<and> (\<forall>m i j k. element m f1 i j k =
                  element m frame (mirror (0 \<in> set ns) (shape0 frame) i)
                    (mirror (1 \<in> set ns) (shape1 frame) j)
                    (mirror (2 \<in> set ns) (shape2 frame) k))))
    \<and> (transform_flip self = None \<longrightarrow> flipped self frame = Inr frame)
    \<and> ((transform_flip self = None
          \<or> (\<exists>ax ns. transform_flip self = Some ax \<and> normalize_axis_tuple ax = Inr ns))
        \<and> (transform_fit self = Some True \<longrightarrow>
              0 < shape0 frame \<and> 0 < shape1 frame
              \<and> 0 < recommendedImageRectWidth cv \<and> 0 < recommendedImageRectHeight cv) \<longrightarrow>
         (\<exists>r mem'. transform self interp mem cv frame = Inr (r, mem')))
    \<and> (transformed self \<longleftrightarrow> transform_flip self \<noteq> None \<or> transform_fit self = Some True)"
proof -
  have 1: "\<not> transformed self \<longrightarrow> transform self interp mem cv frame = Inr (frame, mem)"
    by (simp add: transform_untouched)
  have 2: "transformed self \<and> transform self interp mem cv frame = Inr (r, mem') \<longrightarrow>
         next_free mem \<le> buffer r \<and> buffer r < next_free mem' \<and> buffer r \<noteq> buffer frame
         \<and> (\<forall>a<next_free mem. contents mem' a = contents mem a)
         \<and> element mem' frame i j k = element mem frame i j k
         \<and> element (store_element mem' r i' j' k' v) frame i j k = element mem frame i j k"
  proof (intro impI, elim conjE)
    assume t: "transformed self" "transform self interp mem cv frame = Inr (r, mem')"
    from transform_fresh [OF alloc t] have
      f: "next_free mem \<le> buffer r" "buffer r < next_free mem'" "buffer r \<noteq> buffer frame"
        "extends mem mem'"
      by simp_all
    have "element mem' frame i j k = element mem frame i j k"
      using f(4) alloc by (rule extends_element)
    moreover have "element (store_element mem' r i' j' k' v) frame i j k =
        element mem' frame i j k"
      using f(3) by (rule store_element_other)
    ultimately show "next_free mem \<le> buffer r \<and> buffer r < next_free mem'
         \<and> buffer r \<noteq> buffer frame
         \<and> (\<forall>a<next_free mem. contents mem' a = contents mem a)
         \<and> element mem' frame i j k = element mem frame i j k
         \<and> element (store_element mem' r i' j' k' v) frame i j k = element mem frame i j k"
      using f by (simp add: extends_def)
  qed
  have 3: "transformed self \<and> flipped self frame = Inr f1
         \<and> (if transform_fit self = Some True then fit interp mem cv f1 = Inr (f2, mem2)
             else f2 = f1 \<and> mem2 = mem) \<longrightarrow>
         (\<exists>r mem'. transform self interp mem cv frame = Inr (r, mem')
            \<and> shape r = shape f2
            \<and> (\<forall>i j k. element mem' r i j k = element mem2 f2 i j k))"
  proof (intro impI, elim conjE)
    assume t: "transformed self" "flipped self frame = Inr f1"
      "if transform_fit self = Some True then fit interp mem cv f1 = Inr (f2, mem2)
             else f2 = f1 \<and> mem2 = mem"
    obtain r0 m0 where c: "np_array_copy mem2 f2 = (r0, m0)"
      by (cases "np_array_copy mem2 f2")
    from transform_flipped_fit [OF t] c
    have "transform self interp mem cv frame = Inr (r0, m0)" by simp
    with np_array_copy_fresh [OF c]
    show "\<exists>r mem'. transform self interp mem cv frame = Inr (r, mem')
            \<and> shape r = shape f2
            \<and> (\<forall>i j k. element mem' r i j k = element mem2 f2 i j k)"
      by blast
  qed
  have 4: "transform_flip self = Some ax \<and> normalize_axis_tuple ax = Inr ns \<longrightarrow>
         (\<exists>f1. flipped self frame = Inr f1 \<and> shape f1 = shape frame
            \<and> (\<forall>m i j k. element m f1 i j k =
                  element m frame (mirror (0 \<in> set ns) (shape0 frame) i)
                    (mirror (1 \<in> set ns) (shape1 frame) j)
                    (mirror (2 \<in> set ns) (shape2 frame) k)))"
    using np_flip_view [of ax ns frame] by (auto simp: flipped_def)
  have 5: "transform_flip self = None \<longrightarrow> flipped self frame = Inr frame"
    by (simp add: flipped_def)
  have 6: "(transform_flip self = None
          \<or> (\<exists>ax ns. transform_flip self = Some ax \<and> normalize_axis_tuple ax = Inr ns))
        \<and> (transform_fit self = Some True \<longrightarrow>
              0 < shape0 frame \<and> 0 < shape1 frame
              \<and> 0 < recommendedImageRectWidth cv \<and> 0 < recommendedImageRectHeight cv) \<longrightarrow>
         (\<exists>r mem'. transform self interp mem cv frame = Inr (r, mem'))"
    using transform_total [of self frame cv interp mem] by blast
  have 7: "transformed self \<longleftrightarrow> transform_flip self \<noteq> None \<or> transform_fit self = Some True"
    by (simp add: transformed_def)
  from 1 2 3 4 5 6 7 show ?thesis by blast
qed


theorem transform_copy_on_modify_witness:
  "buffer (camera_frame 0 480 640) < next_free camera_memory
   \<and> \<not> transformed (acquire_openxr_interface False)
   \<and> transform (acquire_openxr_interface False) nearest camera_memory
        (configuration_view 1280 720) (camera_frame 0 480 640) =
       Inr (camera_frame 0 480 640, camera_memory)
   \<and> transformed flip_example
   \<and> (case transform flip_example nearest camera_memory (configuration_view 1280 720)
              (camera_frame 0 480 640) of
         Inl e \<Rightarrow> False
       | Inr (r, mem') \<Rightarrow>
           buffer r = 1 \<and> shape r = (480, 640, 4)
           \<and> element mem' r 0 0 0 = element camera_memory (camera_frame 0 480 640) 479 0 0
           \<and> element mem' (camera_frame 0 480 640) 0 0 0 = 0
           \<and> element (store_element mem' r 0 0 0 7) r 0 0 0 = 7
           \<and> element (store_element mem' r 0 0 0 7) (camera_frame 0 480 640) 0 0 0 = 0)
   \<and> transformed fit_example
   \<and> (case transform fit_example nearest camera_memory (configuration_view 1280 720)
              (camera_frame 0 480 640) of
         Inl e \<Rightarrow> False
       | Inr (r, mem') \<Rightarrow>
           buffer r = 2 \<and> shape r = (720, 1280, 4)
           \<and> element mem' (camera_frame 0 480 640) 0 0 0 = 0
           \<and> element (store_element mem' r 0 0 0 7) (camera_frame 0 480 640) 0 0 0 = 0)"
proof -
  let ?frame = "camera_frame 0 480 640"
  let ?cv = "configuration_view 1280 720"
  let ?flip = "transform flip_example nearest camera_memory ?cv ?frame"
  let ?fit = "transform fit_example nearest camera_memory ?cv ?frame"
  have a: "buffer ?frame < next_free camera_memory"
    by (simp add: camera_frame_def camera_memory_def)
  have fl: "?flip = Inr (projr ?flip)"
    by (simp add: transform_def flip_example_def set_frame_transformations_def
        acquire_openxr_interface_def np_flip_def normalize_axis_tuple_def normalize_axis_def
        Let_def split: prod.splits)
  have ft: "?fit = Inr (projr ?fit)"
    by (simp add: transform_def fit_example_def set_frame_transformations_def
        acquire_openxr_interface_def fit_def py_truediv_def camera_frame_def
        configuration_view_def cv2_resize_def crop_rows_def py_int_def Let_def split: prod.splits)
  have tf: "transformed flip_example" "transformed fit_example"
    "\<not> transformed (acquire_openxr_interface False)"
    by (simp_all add: transformed_def flip_example_def fit_example_def
        set_frame_transformations_def acquire_openxr_interface_def)
  note w0 = transform_copy_on_modify [OF a, where self = "acquire_openxr_interface False"
      and interp = nearest and cv = ?cv]
  note w1 = transform_copy_on_modify [OF a, where self = flip_example and interp = nearest
      and cv = ?cv and r = "fst (projr ?flip)" and mem' = "snd (projr ?flip)"
      and i = 0 and j = 0 and k = 0 and i' = 0 and j' = 0 and k' = 0 and v = 7]
  note w2 = transform_copy_on_modify [OF a, where self = fit_example and interp = nearest
      and cv = ?cv and r = "fst (projr ?fit)" and mem' = "snd (projr ?fit)"
      and i = 0 and j = 0 and k = 0 and i' = 0 and j' = 0 and k' = 0 and v = 7]
  have u: "transform (acquire_openxr_interface False) nearest camera_memory ?cv ?frame =
       Inr (?frame, camera_memory)"
    using w0 tf by blast
  have f0: "element camera_memory ?frame 0 0 0 = 0"
    by (simp add: element_def camera_frame_def camera_memory_def)
  have b1: "buffer (fst (projr ?flip)) \<noteq> buffer ?frame
      \<and> element (snd (projr ?flip)) ?frame 0 0 0 = 0
      \<and> element (store_element (snd (projr ?flip)) (fst (projr ?flip)) 0 0 0 7) ?frame 0 0 0 = 0"
    using w1 tf fl f0 by (metis prod.collapse)
  have b2: "buffer (fst (projr ?fit)) \<noteq> buffer ?frame
      \<and> element (snd (projr ?fit)) ?frame 0 0 0 = 0
      \<and> element (store_element (snd (projr ?fit)) (fst (projr ?fit)) 0 0 0 7) ?frame 0 0 0 = 0"
    using w2 tf ft f0 by (metis prod.collapse)
  have c1: "buffer (fst (projr ?flip)) = 1 \<and> shape (fst (projr ?flip)) = (480, 640, 4)
      \<and> element (snd (projr ?flip)) (fst (projr ?flip)) 0 0 0 = element camera_memory ?frame 479 0 0
      \<and> element (store_element (snd (projr ?flip)) (fst (projr ?flip)) 0 0 0 7)
            (fst (projr ?flip)) 0 0 0 = 7"
    by (simp add: transform_def flip_example_def set_frame_transformations_def
        acquire_openxr_interface_def np_flip_def normalize_axis_tuple_def normalize_axis_def
        np_array_copy_def allocate_def camera_frame_def camera_memory_def shape_def
        element_def store_element_def mirror_def Let_def)
  have c2: "buffer (fst (projr ?fit)) = 2 \<and> shape (fst (projr ?fit)) = (720, 1280, 4)"
    by (simp add: transform_def fit_example_def set_frame_transformations_def
        acquire_openxr_interface_def fit_def py_truediv_def camera_frame_def
        configuration_view_def cv2_resize_def crop_rows_def py_int_def np_array_copy_def allocate_def
        camera_memory_def shape_def Let_def)
  have r1: "case ?flip of Inl e \<Rightarrow> False
       | Inr (r, mem') \<Rightarrow>
           buffer r = 1 \<and> shape r = (480, 640, 4)
           \<and> element mem' r 0 0 0 = element camera_memory ?frame 479 0 0
           \<and> element mem' ?frame 0 0 0 = 0
           \<and> element (store_element mem' r 0 0 0 7) r 0 0 0 = 7
           \<and> element (store_element mem' r 0 0 0 7) ?frame 0 0 0 = 0"
    using b1 c1 by (subst fl) (simp add: case_prod_beta)
  have r2: "case ?fit of Inl e \<Rightarrow> False
       | Inr (r, mem') \<Rightarrow>
           buffer r = 2 \<and> shape r = (720, 1280, 4)
           \<and> element mem' ?frame 0 0 0 = 0
           \<and> element (store_element mem' r 0 0 0 7) ?frame 0 0 0 = 0"
    using b2 c2 by (subst ft) (simp add: case_prod_beta)
  show ?thesis
    using a tf u r1 r2 by simp
qed

end
